theory Spec2Isabelle
  imports Main
begin

section \<open>Move runtime: aborts, checked u64 arithmetic, transactions\<close>

text \<open>
  The three on-chain modules (\<open>suiforge::anti_bot\<close>, \<open>suiforge::liquidity_locker\<close>,
  \<open>suiforge::fee_distributor\<close>) are Move code. An address is modelled as a natural number.
  A \<open>u64\<close> is modelled as a natural number; every \<open>+\<close>, \<open>-\<close>, \<open>*\<close> and \<open>/\<close> of the source
  is written with the check the Move VM performs (abort on overflow, underflow, division by
  zero). The VM reports the three as one arithmetic error; the model keeps them apart.
  An \<open>assert!(c, code)\<close> that fails is \<open>Inl (Abort code)\<close>.
\<close>

type_synonym address = nat

definition u64_max :: nat where
  "u64_max = 18446744073709551615"

datatype abort =
    Abort nat
  | Overflow
  | Underflow
  | DivByZero
  | FieldAlreadyExists
  | FieldDoesNotExist
  | IndexOutOfBounds

text \<open>
  A Move transaction that aborts commits none of its effects: the objects it touched keep
  the value they had before the call. \<open>commit s r\<close> is the object after a call that started
  in \<open>s\<close> and produced \<open>r\<close>.
\<close>

fun commit :: "'s \<Rightarrow> abort + 's \<Rightarrow> 's" where
  "commit s (Inl e) = s"
| "commit s (Inr s') = s'"

section \<open>Module fee\_distributor\<close>

definition EInvalidFeeShare :: nat where "EInvalidFeeShare = 0"
definition EInsufficientBalance :: nat where "EInsufficientBalance = 1"

record FeeDistributor =
  protocol_fee_bps :: nat
  creator_fee_bps :: nat
  protocol_fee_recipient :: address
  protocol_balance :: nat
  total_fees_collected :: nat

record TokenFeeConfig =
  fee_token_id :: address
  creator :: address
  creator_balance :: nat
  fees_collected :: nat

text \<open>\<open>init\<close>: the distributor shared at publication, with the sender as fee recipient.\<close>

definition fee_distributor_init :: "address \<Rightarrow> FeeDistributor" where
  "fee_distributor_init sender =
     \<lparr> protocol_fee_bps = 200,
       creator_fee_bps = 800,
       protocol_fee_recipient = sender,
       protocol_balance = 0,
       total_fees_collected = 0 \<rparr>"

definition create_token_fee_config :: "address \<Rightarrow> address \<Rightarrow> TokenFeeConfig" where
  "create_token_fee_config tid cr =
     \<lparr> fee_token_id = tid, creator = cr, creator_balance = 0, fees_collected = 0 \<rparr>"

text \<open>
  \<open>collect_fees\<close>: \<open>fee_amount\<close> is the value of the coin passed in. The coin's balance is
  split: \<open>protocol_amount\<close> joins the protocol balance, the rest of the coin joins the
  creator balance. The checks are in the order in which the VM meets them.
\<close>

definition collect_fees ::
  "FeeDistributor \<Rightarrow> TokenFeeConfig \<Rightarrow> nat \<Rightarrow> abort + (FeeDistributor \<times> TokenFeeConfig)" where
  "collect_fees distributor config fee_amount =
     (if protocol_fee_bps distributor + creator_fee_bps distributor > u64_max then Inl Overflow
      else
        let total_bps = protocol_fee_bps distributor + creator_fee_bps distributor in
        if fee_amount * protocol_fee_bps distributor > u64_max then Inl Overflow
        else if total_bps = 0 then Inl DivByZero
        else
          let protocol_amount = (fee_amount * protocol_fee_bps distributor) div total_bps in
          if fee_amount < protocol_amount then Inl Underflow
          else
            let fee_balance = fee_amount - protocol_amount in
            if protocol_balance distributor + protocol_amount > u64_max then Inl Overflow
            else if creator_balance config + fee_balance > u64_max then Inl Overflow
            else if total_fees_collected distributor + fee_amount > u64_max then Inl Overflow
            else if fees_collected config + fee_amount > u64_max then Inl Overflow
            else
              Inr (distributor
                     \<lparr> protocol_balance := protocol_balance distributor + protocol_amount,
                       total_fees_collected := total_fees_collected distributor + fee_amount \<rparr>,
                   config
                     \<lparr> creator_balance := creator_balance config + fee_balance,
                       fees_collected := fees_collected config + fee_amount \<rparr>))"

text \<open>
  \<open>withdraw_protocol_fees\<close>: the whole protocol balance leaves as one coin to the recipient.
  The result carries the transfer (recipient, amount).
\<close>

definition withdraw_protocol_fees ::
  "FeeDistributor \<Rightarrow> abort + (FeeDistributor \<times> (address \<times> nat))" where
  "withdraw_protocol_fees distributor =
     (let amount = protocol_balance distributor in
      if \<not> amount > 0 then Inl (Abort EInsufficientBalance)
      else Inr (distributor \<lparr> protocol_balance := protocol_balance distributor - amount \<rparr>,
                (protocol_fee_recipient distributor, amount)))"

definition withdraw_creator_fees ::
  "TokenFeeConfig \<Rightarrow> address \<Rightarrow> abort + (TokenFeeConfig \<times> (address \<times> nat))" where
  "withdraw_creator_fees config sender =
     (if \<not> creator config = sender then Inl (Abort 0)
      else
        let amount = creator_balance config in
        if \<not> amount > 0 then Inl (Abort EInsufficientBalance)
        else Inr (config \<lparr> creator_balance := creator_balance config - amount \<rparr>,
                  (creator config, amount)))"

definition update_fee_distribution ::
  "FeeDistributor \<Rightarrow> nat \<Rightarrow> nat \<Rightarrow> abort + FeeDistributor" where
  "update_fee_distribution distributor new_protocol_fee_bps new_creator_fee_bps =
     (if new_protocol_fee_bps + new_creator_fee_bps > u64_max then Inl Overflow
      else if \<not> new_protocol_fee_bps + new_creator_fee_bps = 1000
        then Inl (Abort EInvalidFeeShare)
      else Inr (distributor \<lparr> protocol_fee_bps := new_protocol_fee_bps,
                              creator_fee_bps := new_creator_fee_bps \<rparr>))"

definition update_protocol_fee_recipient :: "FeeDistributor \<Rightarrow> address \<Rightarrow> FeeDistributor" where
  "update_protocol_fee_recipient distributor new_recipient =
     distributor \<lparr> protocol_fee_recipient := new_recipient \<rparr>"

text \<open>
  The distributor states that the module can produce: the one \<open>init\<close> shares, and every
  state a successful entry call leaves behind. The fields are private to the module, so no
  other code writes them.
\<close>

inductive distributor_reachable :: "FeeDistributor \<Rightarrow> bool" where
  reach_init: "distributor_reachable (fee_distributor_init sender)"
| reach_collect:
    "distributor_reachable d \<Longrightarrow> collect_fees d c fee = Inr (d', c')
       \<Longrightarrow> distributor_reachable d'"
| reach_withdraw:
    "distributor_reachable d \<Longrightarrow> withdraw_protocol_fees d = Inr (d', t)
       \<Longrightarrow> distributor_reachable d'"
| reach_update:
    "distributor_reachable d \<Longrightarrow> update_fee_distribution d p c = Inr d'
       \<Longrightarrow> distributor_reachable d'"
| reach_recipient:
    "distributor_reachable d \<Longrightarrow> distributor_reachable (update_protocol_fee_recipient d r)"

section \<open>Module anti\_bot\<close>

definition ETradingNotEnabled :: nat where "ETradingNotEnabled = 0"
definition EAddressAlreadyWhitelisted :: nat where "EAddressAlreadyWhitelisted = 1"
definition EAddressNotWhitelisted :: nat where "EAddressNotWhitelisted = 2"
definition EExceedsMaxBuyLimit :: nat where "EExceedsMaxBuyLimit = 3"
definition EInsufficientCooldown :: nat where "EInsufficientCooldown = 4"
definition EAddressBlacklisted :: nat where "EAddressBlacklisted = 5"

record BuyInfo =
  total_bought :: nat
  last_buy_time :: nat

text \<open>
  \<open>whitelist\<close> is a \<open>vector<address>\<close> (a list), \<open>blacklist\<close> and \<open>buy_tracking\<close> are
  tables (maps). \<open>table::add\<close> aborts on a key that is present, \<open>table::remove\<close> on one
  that is absent. Emitted events are not part of the model.
\<close>

record TokenProtection =
  token_id :: address
  owner :: address
  trading_enabled :: bool
  enable_time :: nat
  cooldown_period :: nat
  max_buy_percent :: nat
  whitelist :: "address list"
  blacklist :: "address \<rightharpoonup> bool"
  buy_tracking :: "address \<rightharpoonup> BuyInfo"

text \<open>\<open>vector::index_of\<close>: the first position of the element, or \<open>(false, 0)\<close>.\<close>

fun index_of :: "'a list \<Rightarrow> 'a \<Rightarrow> bool \<times> nat" where
  "index_of [] e = (False, 0)"
| "index_of (x # xs) e =
     (if x = e then (True, 0)
      else (case index_of xs e of (True, i) \<Rightarrow> (True, Suc i) | (False, i) \<Rightarrow> (False, 0)))"

text \<open>\<open>vector::remove\<close>: removes the element at the index, keeping the order of the rest.\<close>

definition vector_remove :: "'a list \<Rightarrow> nat \<Rightarrow> abort + 'a list" where
  "vector_remove v i =
     (if i \<ge> length v then Inl IndexOutOfBounds else Inr (take i v @ drop (Suc i) v))"

definition is_whitelisted :: "TokenProtection \<Rightarrow> address \<Rightarrow> bool" where
  "is_whitelisted protection addr = (addr \<in> set (whitelist protection))"

text \<open>\<open>clock_ms\<close> is \<open>clock::timestamp_ms(clock)\<close>; \<open>sender\<close> is \<open>tx_context::sender(ctx)\<close>.\<close>

definition create_protection ::
  "address \<Rightarrow> nat \<Rightarrow> nat \<Rightarrow> nat \<Rightarrow> nat \<Rightarrow> address \<Rightarrow> abort + TokenProtection" where
  "create_protection tid cooldown max_buy enable_time_delay clock_ms sender =
     (let current_time = clock_ms div 1000 in
      if current_time + enable_time_delay > u64_max then Inl Overflow
      else
        let enable = current_time + enable_time_delay in
        Inr \<lparr> token_id = tid,
              owner = sender,
              trading_enabled = False,
              enable_time = enable,
              cooldown_period = cooldown,
              max_buy_percent = max_buy,
              whitelist = [] @ [sender],
              blacklist = Map.empty,
              buy_tracking = Map.empty \<rparr>)"

definition check_can_buy ::
  "TokenProtection \<Rightarrow> address \<Rightarrow> nat \<Rightarrow> nat \<Rightarrow> nat \<Rightarrow> abort + (bool \<times> TokenProtection)" where
  "check_can_buy protection buyer amount total_supply clock_ms =
     (if is_whitelisted protection buyer then Inr (True, protection)
      else if buyer \<in> dom (blacklist protection) then Inr (False, protection)
      else
        let current_time = clock_ms div 1000;
            p1 = (if \<not> trading_enabled protection \<and> current_time \<ge> enable_time protection
                  then protection \<lparr> trading_enabled := True \<rparr>
                  else protection)
        in
        if \<not> trading_enabled p1 then Inl (Abort ETradingNotEnabled)
        else if total_supply * max_buy_percent p1 > u64_max then Inl Overflow
        else
          let max_buy_amount = (total_supply * max_buy_percent p1) div 10000 in
          if \<not> amount \<le> max_buy_amount then Inl (Abort EExceedsMaxBuyLimit)
          else
            (case buy_tracking p1 buyer of
               Some buy_info \<Rightarrow>
                 if current_time < last_buy_time buy_info then Inl Underflow
                 else if \<not> (current_time - last_buy_time buy_info) \<ge> cooldown_period p1
                   then Inl (Abort EInsufficientCooldown)
                 else if total_bought buy_info + amount > u64_max then Inl Overflow
                 else
                   Inr (True,
                        p1 \<lparr> buy_tracking := (buy_tracking p1)
                               (buyer \<mapsto> buy_info
                                  \<lparr> total_bought := total_bought buy_info + amount,
                                    last_buy_time := current_time \<rparr>) \<rparr>)
             | None \<Rightarrow>
                 Inr (True,
                      p1 \<lparr> buy_tracking := (buy_tracking p1)
                             (buyer \<mapsto> \<lparr> total_bought = amount,
                                         last_buy_time = current_time \<rparr>) \<rparr>)))"

definition add_to_whitelist ::
  "TokenProtection \<Rightarrow> address \<Rightarrow> address \<Rightarrow> abort + TokenProtection" where
  "add_to_whitelist protection addr sender =
     (if \<not> owner protection = sender then Inl (Abort 0)
      else if \<not> \<not> is_whitelisted protection addr then Inl (Abort EAddressAlreadyWhitelisted)
      else Inr (protection \<lparr> whitelist := whitelist protection @ [addr] \<rparr>))"

definition remove_from_whitelist ::
  "TokenProtection \<Rightarrow> address \<Rightarrow> address \<Rightarrow> abort + TokenProtection" where
  "remove_from_whitelist protection addr sender =
     (if \<not> owner protection = sender then Inl (Abort 0)
      else
        (case index_of (whitelist protection) addr of
           (exists, index) \<Rightarrow>
             if \<not> exists then Inl (Abort EAddressNotWhitelisted)
             else
               (case vector_remove (whitelist protection) index of
                  Inl e \<Rightarrow> Inl e
                | Inr v \<Rightarrow> Inr (protection \<lparr> whitelist := v \<rparr>))))"

definition add_to_blacklist ::
  "TokenProtection \<Rightarrow> address \<Rightarrow> address \<Rightarrow> abort + TokenProtection" where
  "add_to_blacklist protection addr sender =
     (if \<not> owner protection = sender then Inl (Abort 0)
      else if addr \<in> dom (blacklist protection) then Inl FieldAlreadyExists
      else Inr (protection \<lparr> blacklist := (blacklist protection)(addr \<mapsto> True) \<rparr>))"

definition remove_from_blacklist ::
  "TokenProtection \<Rightarrow> address \<Rightarrow> address \<Rightarrow> abort + TokenProtection" where
  "remove_from_blacklist protection addr sender =
     (if \<not> owner protection = sender then Inl (Abort 0)
      else if \<not> addr \<in> dom (blacklist protection) then Inl (Abort EAddressNotWhitelisted)
      else Inr (protection \<lparr> blacklist := (blacklist protection)(addr := None) \<rparr>))"

definition enable_trading :: "TokenProtection \<Rightarrow> address \<Rightarrow> abort + TokenProtection" where
  "enable_trading protection sender =
     (if \<not> owner protection = sender then Inl (Abort 0)
      else Inr (protection \<lparr> trading_enabled := True \<rparr>))"

definition update_max_buy_percent ::
  "TokenProtection \<Rightarrow> nat \<Rightarrow> address \<Rightarrow> abort + TokenProtection" where
  "update_max_buy_percent protection new_percent sender =
     (if \<not> owner protection = sender then Inl (Abort 0)
      else Inr (protection \<lparr> max_buy_percent := new_percent \<rparr>))"

definition update_cooldown_period ::
  "TokenProtection \<Rightarrow> nat \<Rightarrow> address \<Rightarrow> abort + TokenProtection" where
  "update_cooldown_period protection new_period sender =
     (if \<not> owner protection = sender then Inl (Abort 0)
      else Inr (protection \<lparr> cooldown_period := new_period \<rparr>))"

text \<open>
  The calls a transaction can make on a shared \<open>TokenProtection\<close>, and the object a
  sequence of transactions leaves behind (an aborted one leaves it as it was).
\<close>

datatype anti_bot_call =
    CheckCanBuy address nat nat nat
  | AddToWhitelist address address
  | RemoveFromWhitelist address address
  | AddToBlacklist address address
  | RemoveFromBlacklist address address
  | EnableTrading address
  | UpdateMaxBuyPercent nat address
  | UpdateCooldownPeriod nat address

fun anti_bot_exec :: "TokenProtection \<Rightarrow> anti_bot_call \<Rightarrow> abort + TokenProtection" where
  "anti_bot_exec p (CheckCanBuy buyer amount total_supply clock_ms) =
     map_sum id snd (check_can_buy p buyer amount total_supply clock_ms)"
| "anti_bot_exec p (AddToWhitelist addr sender) = add_to_whitelist p addr sender"
| "anti_bot_exec p (RemoveFromWhitelist addr sender) = remove_from_whitelist p addr sender"
| "anti_bot_exec p (AddToBlacklist addr sender) = add_to_blacklist p addr sender"
| "anti_bot_exec p (RemoveFromBlacklist addr sender) = remove_from_blacklist p addr sender"
| "anti_bot_exec p (EnableTrading sender) = enable_trading p sender"
| "anti_bot_exec p (UpdateMaxBuyPercent n sender) = update_max_buy_percent p n sender"
| "anti_bot_exec p (UpdateCooldownPeriod n sender) = update_cooldown_period p n sender"

fun anti_bot_run :: "TokenProtection \<Rightarrow> anti_bot_call list \<Rightarrow> TokenProtection" where
  "anti_bot_run p [] = p"
| "anti_bot_run p (c # cs) = anti_bot_run (commit p (anti_bot_exec p c)) cs"

section \<open>Module liquidity\_locker\<close>

definition ELockStillActive :: nat where "ELockStillActive = 0"
definition EInvalidLockDuration :: nat where "EInvalidLockDuration = 1"
definition EInvalidLock :: nat where "EInvalidLock = 2"
definition ELockNotFound :: nat where "ELockNotFound = 3"

text \<open>
  \<open>token_balance\<close> is the value of the \<open>Balance\<close> the lock holds. The field \<open>locker\<close> of
  \<open>Lock\<close> is the address that made the deposit.
\<close>

record Lock =
  token_balance :: nat
  token_type :: address
  locker :: address
  unlock_time :: nat

record LiquidityLocker =
  locks :: "address \<rightharpoonup> Lock"
  min_lock_duration :: nat
  lock_count :: nat

definition liquidity_locker_init :: LiquidityLocker where
  "liquidity_locker_init =
     \<lparr> locks = Map.empty, min_lock_duration = 30 * 24 * 60 * 60, lock_count = 0 \<rparr>"

text \<open>
  \<open>lock_liquidity\<close>: \<open>lp_value\<close> is \<open>coin::value(&lp_tokens)\<close>, \<open>coin_type\<close> the address of
  the type argument, \<open>lock_addr\<close> the address of the UID that \<open>object::new(ctx)\<close> returns.
\<close>

definition lock_liquidity ::
  "LiquidityLocker \<Rightarrow> nat \<Rightarrow> nat \<Rightarrow> address \<Rightarrow> nat \<Rightarrow> address \<Rightarrow> address
     \<Rightarrow> abort + LiquidityLocker" where
  "lock_liquidity lockr clock_ms lp_value coin_type lock_duration sender lock_addr =
     (if \<not> lock_duration \<ge> min_lock_duration lockr then Inl (Abort EInvalidLockDuration)
      else
        let current_time = clock_ms div 1000 in
        if current_time + lock_duration > u64_max then Inl Overflow
        else
          let unlock = current_time + lock_duration;
              amount = lp_value;
              lock = \<lparr> token_balance = lp_value,
                       token_type = coin_type,
                       locker = sender,
                       unlock_time = unlock \<rparr>
          in
          if lock_addr \<in> dom (locks lockr) then Inl FieldAlreadyExists
          else if lock_count lockr + 1 > u64_max then Inl Overflow
          else Inr (lockr \<lparr> locks := (locks lockr)(lock_addr \<mapsto> lock),
                            lock_count := lock_count lockr + 1 \<rparr>))"

text \<open>
  \<open>unlock_liquidity\<close>: the source takes the record out of the table first and checks
  afterwards; a failed check aborts the transaction, which puts the record back. On
  success the result carries the transfer: the recipient and the value of the coin made
  from the whole balance of the lock.
\<close>

definition unlock_liquidity ::
  "LiquidityLocker \<Rightarrow> nat \<Rightarrow> address \<Rightarrow> address
     \<Rightarrow> abort + (LiquidityLocker \<times> (address \<times> nat))" where
  "unlock_liquidity lockr clock_ms lock_id sender =
     (case locks lockr lock_id of
        None \<Rightarrow> Inl (Abort ELockNotFound)
      | Some lock \<Rightarrow>
          let lockr1 = lockr \<lparr> locks := (locks lockr)(lock_id := None) \<rparr>;
              lock_owner = locker lock
          in
          if \<not> lock_owner = sender then Inl (Abort EInvalidLock)
          else
            let current_time = clock_ms div 1000 in
            if \<not> current_time \<ge> unlock_time lock then Inl (Abort ELockStillActive)
            else Inr (lockr1, (lock_owner, token_balance lock)))"

definition update_min_lock_duration :: "LiquidityLocker \<Rightarrow> nat \<Rightarrow> LiquidityLocker" where
  "update_min_lock_duration lockr new_duration = lockr \<lparr> min_lock_duration := new_duration \<rparr>"

definition get_lock_info ::
  "LiquidityLocker \<Rightarrow> address \<Rightarrow> abort + (address \<times> address \<times> nat \<times> nat)" where
  "get_lock_info lockr lock_id =
     (case locks lockr lock_id of
        None \<Rightarrow> Inl (Abort ELockNotFound)
      | Some lock \<Rightarrow> Inr (token_type lock, locker lock, token_balance lock, unlock_time lock))"

section \<open>Telegram listener: rate limiting\<close>

text \<open>
  \<open>userActivityTracker\<close> is a \<open>Map\<close> from user id to a record; \<open>now\<close> is
  \<open>Math.floor(Date.now() / 1000)\<close>, an integer number of seconds. The function returns
  whether the user is rate limited, and the tracker as the call leaves it.
\<close>

definition maxRequests :: int where "maxRequests = 3"
definition timeWindow :: int where "timeWindow = 3600"
definition cooldown :: int where "cooldown = 86400"

record UserData =
  count :: int
  firstRequest :: int
  isCoolingDown :: bool
  cooldownUntil :: int

definition isRateLimited ::
  "(nat \<rightharpoonup> UserData) \<Rightarrow> nat \<Rightarrow> int \<Rightarrow> bool \<times> (nat \<rightharpoonup> UserData)" where
  "isRateLimited userActivityTracker userId now =
     (case userActivityTracker userId of
        None \<Rightarrow>
          (False, userActivityTracker
                    (userId \<mapsto> \<lparr> count = 1, firstRequest = now,
                                 isCoolingDown = False, cooldownUntil = 0 \<rparr>))
      | Some userData \<Rightarrow>
          if isCoolingDown userData then
            (if now < cooldownUntil userData then (True, userActivityTracker)
             else
               (False, userActivityTracker
                         (userId \<mapsto> userData \<lparr> count := 1, firstRequest := now,
                                               isCoolingDown := False \<rparr>)))
          else if now - firstRequest userData < timeWindow then
            (if count userData \<ge> maxRequests then
               (True, userActivityTracker
                        (userId \<mapsto> userData \<lparr> isCoolingDown := True,
                                              cooldownUntil := now + cooldown \<rparr>))
             else
               (False, userActivityTracker
                         (userId \<mapsto> userData \<lparr> count := count userData + 1 \<rparr>)))
          else
            (False, userActivityTracker
                      (userId \<mapsto> userData \<lparr> count := 1, firstRequest := now \<rparr>)))"

section \<open>Text parser: validation of token parameters\<close>

text \<open>
  A JavaScript string whose code units are all below 256 is modelled as a \<open>string\<close>, one
  \<open>char\<close> per code unit, so that \<open>length\<close> is the \<open>.length\<close> of the source. A field that is
  \<open>null\<close> or \<open>undefined\<close> is \<open>None\<close>; a field is truthy when it is a non-empty string.
\<close>

definition truthy :: "string option \<Rightarrow> bool" where
  "truthy v = (case v of None \<Rightarrow> False | Some s \<Rightarrow> s \<noteq> [])"

text \<open>White space of \<open>trim\<close> and of \<open>\s\<close> in this range: TAB, LF, VT, FF, CR, space, NBSP.\<close>

definition is_space :: "char \<Rightarrow> bool" where
  "is_space c =
     (let n = (of_char c :: nat) in (9 \<le> n \<and> n \<le> 13) \<or> n = 32 \<or> n = 160)"

text \<open>The class \<open>\w\<close>: ASCII letters, digits and the underscore.\<close>

definition is_word_char :: "char \<Rightarrow> bool" where
  "is_word_char c =
     (let n = (of_char c :: nat)
      in (48 \<le> n \<and> n \<le> 57) \<or> (65 \<le> n \<and> n \<le> 90) \<or> n = 95 \<or> (97 \<le> n \<and> n \<le> 122))"

definition trim :: "string \<Rightarrow> string" where
  "trim s = rev (dropWhile is_space (rev (dropWhile is_space s)))"

text \<open>
  \<open>toUpperCase\<close> on this range: \<open>a\<close>..\<open>z\<close> and the accented lower-case letters move down by
  32, the sharp s (223) becomes \<open>SS\<close>. The micro sign (181) and y with diaeresis (255) have
  their upper case outside the range; they are left as they are, which makes no difference
  below, where the result only passes through a filter that deletes both them and their
  upper case.
\<close>

definition upper_char :: "char \<Rightarrow> string" where
  "upper_char c =
     (let n = (of_char c :: nat) in
      if 97 \<le> n \<and> n \<le> 122 then [char_of (n - 32)]
      else if n = 223 then ''SS''
      else if 224 \<le> n \<and> n \<le> 254 \<and> n \<noteq> 247 then [char_of (n - 32)]
      else [c])"

definition toUpperCase :: "string \<Rightarrow> string" where
  "toUpperCase s = concat (map upper_char s)"

record TokenFields =
  tokenName :: "string option"
  tokenSymbol :: "string option"
  memeTheme :: "string option"
  emoji :: "string option"

record ParsedRequest = TokenFields +
  isTokenRequest :: bool
  confidence :: int

record ValidatedParams = TokenFields +
  isValid :: bool
  reason_v :: "string option"

text \<open>
  \<open>validateTokenParams\<close>. \<open>default_emoji\<close> is the element of the pool of default emojis
  that \<open>Math.random\<close> selects.
\<close>

definition validateTokenParams :: "ParsedRequest \<Rightarrow> string \<Rightarrow> ValidatedParams" where
  "validateTokenParams tokenParams default_emoji =
     (if \<not> isTokenRequest tokenParams \<or> confidence tokenParams < 70 then
        \<lparr> tokenName = None, tokenSymbol = None, memeTheme = None, emoji = None,
          isValid = False, reason_v = Some ''Not a token request or low confidence'' \<rparr>
      else
        let validatedParams =
              \<lparr> tokenName = None, tokenSymbol = None, memeTheme = None, emoji = None,
                isValid = True, reason_v = None \<rparr>
        in
        if \<not> truthy (tokenName tokenParams) then
          validatedParams \<lparr> isValid := False, reason_v := Some ''Missing token name'' \<rparr>
        else
          let v1 = validatedParams
                     \<lparr> tokenName :=
                         Some (filter (\<lambda>c. is_word_char c \<or> is_space c)
                                 (trim (the (tokenName tokenParams)))) \<rparr>
          in
          if \<not> truthy (tokenSymbol tokenParams) then
            v1 \<lparr> isValid := False, reason_v := Some ''Missing token symbol'' \<rparr>
          else
            let sym = filter is_word_char (toUpperCase (trim (the (tokenSymbol tokenParams))));
                v2 = v1 \<lparr> tokenSymbol := Some sym \<rparr>
            in
            if length sym < 2 \<or> length sym > 5 then
              v2 \<lparr> isValid := False, reason_v := Some ''Token symbol must be 2-5 characters'' \<rparr>
            else
              let v3 = (if truthy (memeTheme tokenParams)
                        then v2 \<lparr> memeTheme := Some (trim (the (memeTheme tokenParams))) \<rparr>
                        else v2 \<lparr> memeTheme := Some ''Generic meme token'' \<rparr>)
              in
              if truthy (emoji tokenParams) \<and> length (the (emoji tokenParams)) = 2 then
                v3 \<lparr> emoji := emoji tokenParams \<rparr>
              else if truthy (emoji tokenParams) then
                v3 \<lparr> emoji := emoji tokenParams \<rparr>
              else
                v3 \<lparr> emoji := Some default_emoji \<rparr>)"

section \<open>Deployer: the orchestration workflow\<close>

text \<open>
  An awaited call to a collaborator either resolves to a value or throws. Result objects
  of the source are one record; a field the object does not have is \<open>None\<close>. The fields
  \<open>source\<close>, \<open>userId\<close> and \<open>tokenParams\<close>, which are passed through, are left out.
\<close>

datatype 'a outcome = Returns 'a | Throws string

record ResultObject =
  success :: bool
  error :: "string option"
  reason :: "string option"
  tokenId :: "string option"
  transactionDigest :: "string option"
  liquidityAdded :: "bool option"
  liquidityLocked :: "bool option"

definition failure_object :: ResultObject where
  "failure_object =
     \<lparr> success = False, error = None, reason = None, tokenId = None,
       transactionDigest = None, liquidityAdded = None, liquidityLocked = None \<rparr>"

definition success_object :: ResultObject where
  "success_object = failure_object \<lparr> success := True \<rparr>"

text \<open>
  A transaction result: its digest and its events, each with its type and, when present,
  the \<open>token_id\<close> of its \<open>parsedJson\<close> (\<open>Some None\<close>: a \<open>parsedJson\<close> without that field).
\<close>

record Event =
  etype :: string
  parsedJson :: "string option option"

record TxResult =
  digest :: string
  events :: "Event list"

fun str_includes :: "string \<Rightarrow> string \<Rightarrow> bool" where
  "str_includes [] sub = (sub = [])"
| "str_includes (c # cs) sub = (take (length sub) (c # cs) = sub \<or> str_includes cs sub)"

definition extractTokenIdFromEvents :: "TxResult \<Rightarrow> string option" where
  "extractTokenIdFromEvents result =
     (if length (events result) = 0 then None
      else
        (case find (\<lambda>event. str_includes (etype event) ''::token_factory::TokenCreated'')
                (events result) of
           None \<Rightarrow> None
         | Some tokenCreatedEvent \<Rightarrow>
             (case parsedJson tokenCreatedEvent of
                None \<Rightarrow> None
              | Some token_id_field \<Rightarrow> token_id_field)))"

text \<open>
  \<open>setupAntiBot\<close> and \<open>setupFeeDistribution\<close> catch what their transaction throws and
  return a result object either way.
\<close>

definition setupAntiBot :: "TxResult outcome \<Rightarrow> ResultObject" where
  "setupAntiBot tx =
     (case tx of
        Returns result \<Rightarrow> success_object \<lparr> transactionDigest := Some (digest result) \<rparr>
      | Throws message \<Rightarrow> failure_object \<lparr> error := Some message \<rparr>)"

definition setupFeeDistribution :: "string outcome \<Rightarrow> TxResult outcome \<Rightarrow> ResultObject" where
  "setupFeeDistribution getAddress tx =
     (case getAddress of
        Throws message \<Rightarrow> failure_object \<lparr> error := Some message \<rparr>
      | Returns addr \<Rightarrow>
          (case tx of
             Returns result \<Rightarrow> success_object \<lparr> transactionDigest := Some (digest result) \<rparr>
           | Throws message \<Rightarrow> failure_object \<lparr> error := Some message \<rparr>))"

text \<open>
  What the collaborators of one run of \<open>processTokenDeployment\<close> do: the value
  \<open>parseTokenRequest\<close> resolves to, the default emoji drawn by \<open>validateTokenParams\<close>, and
  the outcome of every awaited call in the order of the workflow. \<open>createTokenTx\<close> stands
  for building and executing the \<open>create_token\<close> transaction.
\<close>

record Collaborators =
  parsedRequest :: ParsedRequest
  defaultEmoji :: string
  createSigner :: "unit outcome"
  createTokenTx :: "TxResult outcome"
  antiBotTx :: "TxResult outcome"
  feeGetAddress :: "string outcome"
  feeConfigTx :: "TxResult outcome"
  provideLiquidity :: "ResultObject outcome"
  lockLiquidity :: "ResultObject outcome"

text \<open>
  \<open>deployToken\<close>: everything is inside one \<open>try\<close>; whatever is thrown ends in the result
  object with \<open>success: false\<close>. The objects that \<open>setupAntiBot\<close> and
  \<open>setupFeeDistribution\<close> return are awaited and dropped.
\<close>

definition deployToken :: "Collaborators \<Rightarrow> ResultObject" where
  "deployToken env =
     (case createSigner env of
        Throws message \<Rightarrow> failure_object \<lparr> error := Some message \<rparr>
      | Returns signer \<Rightarrow>
          (case createTokenTx env of
             Throws message \<Rightarrow> failure_object \<lparr> error := Some message \<rparr>
           | Returns result \<Rightarrow>
               let tokenId' = extractTokenIdFromEvents result in
               if \<not> truthy tokenId' then
                 failure_object \<lparr> error := Some ''Failed to extract token ID from events'' \<rparr>
               else
                 let antiBot = setupAntiBot (antiBotTx env);
                     feeDistribution = setupFeeDistribution (feeGetAddress env) (feeConfigTx env)
                 in success_object \<lparr> tokenId := tokenId',
                                      transactionDigest := Some (digest result) \<rparr>))"

text \<open>
  \<open>processTokenDeployment\<close>. Metadata and imagery generation catch their own failures
  and do not decide the result; they are not part of the model.
\<close>

definition processTokenDeployment :: "Collaborators \<Rightarrow> ResultObject" where
  "processTokenDeployment env =
     (if \<not> isTokenRequest (parsedRequest env) \<or> confidence (parsedRequest env) < 70 then
        failure_object \<lparr> reason := Some ''Not a valid token request or low confidence'' \<rparr>
      else
        let validatedParams = validateTokenParams (parsedRequest env) (defaultEmoji env) in
        if \<not> isValid validatedParams then
          failure_object \<lparr> reason := reason_v validatedParams \<rparr>
        else
          let deploymentResult = deployToken env in
          if \<not> success deploymentResult then
            failure_object
              \<lparr> reason := Some (''Deployment failed: '' @ the (error deploymentResult)) \<rparr>
          else
            (case provideLiquidity env of
               Throws message \<Rightarrow>
                 failure_object \<lparr> reason := Some (''Processing error: '' @ message) \<rparr>
             | Returns liquidityResult \<Rightarrow>
                 (case lockLiquidity env of
                    Throws message \<Rightarrow>
                      failure_object \<lparr> reason := Some (''Processing error: '' @ message) \<rparr>
                  | Returns lockResult \<Rightarrow>
                      success_object
                        \<lparr> tokenId := tokenId deploymentResult,
                          transactionDigest := transactionDigest deploymentResult,
                          liquidityAdded := Some (success liquidityResult),
                          liquidityLocked := Some (success lockResult) \<rparr>)))"

section \<open>Preconditions and example states\<close>

text \<open>
  The protection the deployer sets up (cooldown 300 s, max buy 500 bps, enable delay 300 s),
  created at second 1000 by address 1 for token 100.
\<close>

definition p0 :: TokenProtection where
  "p0 = \<lparr> token_id = 100, owner = 1, trading_enabled = False, enable_time = 1300,
          cooldown_period = 300, max_buy_percent = 500, whitelist = [1],
          blacklist = Map.empty, buy_tracking = Map.empty \<rparr>"

text \<open>
  The locker after address 1 has locked 1000 LP tokens of type 50 for 30 days at second
  5000, under lock id 9.
\<close>

definition lk1 :: LiquidityLocker where
  "lk1 = \<lparr> locks = [9 \<mapsto> \<lparr> token_balance = 1000, token_type = 50, locker = 1,
                            unlock_time = 2597000 \<rparr>],
           min_lock_duration = 2592000, lock_count = 1 \<rparr>"

text \<open>
  \<open>p0\<close> after the owner has called \<open>enable_trading\<close>; \<open>p0\<close> after address 2 has bought 50
  at second 1300; and that state after address 2 has bought 50 again at second 1600.
\<close>

definition p0_enabled :: TokenProtection where
  "p0_enabled = p0 \<lparr> trading_enabled := True \<rparr>"

definition p1 :: TokenProtection where
  "p1 = p0 \<lparr> trading_enabled := True,
               buy_tracking := [2 \<mapsto> \<lparr> total_bought = 50, last_buy_time = 1300 \<rparr>] \<rparr>"

definition p2 :: TokenProtection where
  "p2 = p0 \<lparr> trading_enabled := True,
               buy_tracking := [2 \<mapsto> \<lparr> total_bought = 100, last_buy_time = 1600 \<rparr>] \<rparr>"

text \<open>
  Whether a check at time \<open>t\<close> opens a new window for the user: the user is unknown, or
  the user's cooldown has ended, or the user's window has passed.
\<close>

definition window_starts :: "(nat \<rightharpoonup> UserData) \<Rightarrow> nat \<Rightarrow> int \<Rightarrow> bool" where
  "window_starts tracker userId t =
     (case tracker userId of
        None \<Rightarrow> True
      | Some d \<Rightarrow> if isCoolingDown d then cooldownUntil d \<le> t
                  else \<not> t - firstRequest d < timeWindow)"

text \<open>The tracker entries of user 42 after checks at seconds 0, 10, 20 and 30.\<close>

definition tk1 :: "nat \<rightharpoonup> UserData" where
  "tk1 = [42 \<mapsto> \<lparr> count = 1, firstRequest = 0, isCoolingDown = False, cooldownUntil = 0 \<rparr>]"

definition tk2 :: "nat \<rightharpoonup> UserData" where
  "tk2 = [42 \<mapsto> \<lparr> count = 2, firstRequest = 0, isCoolingDown = False, cooldownUntil = 0 \<rparr>]"

definition tk3 :: "nat \<rightharpoonup> UserData" where
  "tk3 = [42 \<mapsto> \<lparr> count = 3, firstRequest = 0, isCoolingDown = False, cooldownUntil = 0 \<rparr>]"

definition tk4 :: "nat \<rightharpoonup> UserData" where
  "tk4 = [42 \<mapsto> \<lparr> count = 3, firstRequest = 0, isCoolingDown = True, cooldownUntil = 86430 \<rparr>]"

text \<open>
  A parsed request that passes every check before the symbol (a token request with
  confidence 85 and a name), with the given symbol.
\<close>

definition request_with_symbol :: "string \<Rightarrow> ParsedRequest" where
  "request_with_symbol s =
     \<lparr> tokenName = Some ''CatMoon'', tokenSymbol = Some s, memeTheme = None, emoji = None,
       isTokenRequest = True, confidence = 85 \<rparr>"

text \<open>
  A run in which the request is valid, the token is created, anti-bot protection and fee
  configuration succeed, and both liquidity steps return an unsuccessful result.
\<close>

definition created_tx :: TxResult where
  "created_tx =
     \<lparr> digest = ''D1'',
       events = [\<lparr> etype = ''0x2::token_factory::TokenCreated'',
                   parsedJson = Some (Some ''0xT'') \<rparr>] \<rparr>"

definition env_liquidity_fails :: Collaborators where
  "env_liquidity_fails =
     \<lparr> parsedRequest = request_with_symbol ''CMON'',
       defaultEmoji = ''x'',
       createSigner = Returns (),
       createTokenTx = Returns created_tx,
       antiBotTx = Returns \<lparr> digest = ''D2'', events = [] \<rparr>,
       feeGetAddress = Returns ''0xA'',
       feeConfigTx = Returns \<lparr> digest = ''D3'', events = [] \<rparr>,
       provideLiquidity = Returns (failure_object \<lparr> error := Some ''Failed to create pool'' \<rparr>),
       lockLiquidity = Returns (failure_object \<lparr> error := Some ''No LP tokens found'' \<rparr>) \<rparr>"

section \<open>Fee router: properties\<close>

lemma collect_fees_bps:
  "collect_fees d c fee = Inr (d', c') \<Longrightarrow>
     protocol_fee_bps d' = protocol_fee_bps d \<and> creator_fee_bps d' = creator_fee_bps d"
  by (auto simp: collect_fees_def Let_def split: if_splits)

lemma withdraw_protocol_fees_bps:
  "withdraw_protocol_fees d = Inr (d', t) \<Longrightarrow>
     protocol_fee_bps d' = protocol_fee_bps d \<and> creator_fee_bps d' = creator_fee_bps d"
  by (auto simp: withdraw_protocol_fees_def Let_def split: if_splits)

lemma update_fee_distribution_bps:
  "update_fee_distribution d p c = Inr d' \<Longrightarrow> protocol_fee_bps d' + creator_fee_bps d' = 1000"
  by (auto simp: update_fee_distribution_def split: if_splits)

lemma reachable_bps_sum:
  "distributor_reachable d \<Longrightarrow> protocol_fee_bps d + creator_fee_bps d = 1000"
proof (induction rule: distributor_reachable.induct)
  case (reach_init sender)
  show ?case by (simp add: fee_distributor_init_def)
next
  case (reach_collect d c fee d' c')
  then show ?case using collect_fees_bps by metis
next
  case (reach_withdraw d d' t)
  then show ?case using withdraw_protocol_fees_bps by metis
next
  case (reach_update d p c d')
  then show ?case using update_fee_distribution_bps by metis
next
  case (reach_recipient d r)
  then show ?case by (simp add: update_protocol_fee_recipient_def)
qed

lemma mult_div_le_self:
  fixes fee p c :: nat
  shows "(fee * p) div (p + c) \<le> fee"
proof (cases "p + c = 0")
  case True
  then show ?thesis by simp
next
  case False
  have "fee * p \<le> fee * (p + c)" by simp
  then have "(fee * p) div (p + c) \<le> (fee * (p + c)) div (p + c)"
    by (rule div_le_mono)
  with False show ?thesis by simp
qed

text \<open>
  C6. Whenever \<open>collect_fees\<close> completes, the protocol balance grows by exactly
  \<open>fee_amount * protocol_fee_bps div (protocol_fee_bps + creator_fee_bps)\<close> (integer
  division), the creator balance grows by exactly \<open>fee_amount\<close> minus that, the two
  credits add up to \<open>fee_amount\<close>, and the truncation remainder of the division is on the
  creator's side: the creator's credit times the base is the creator's exact share plus the
  remainder. The call completes exactly when the base is not zero and no u64 computation
  overflows; otherwise it aborts and credits nothing.
\<close>

theorem collect_fees_split_exact:
  "collect_fees d c fee = Inr (d', c') \<longleftrightarrow>
     (let total_bps = protocol_fee_bps d + creator_fee_bps d;
          protocol_amount = (fee * protocol_fee_bps d) div total_bps;
          creator_amount = fee - protocol_amount
      in total_bps \<le> u64_max \<and> fee * protocol_fee_bps d \<le> u64_max \<and> total_bps \<noteq> 0
         \<and> protocol_balance d + protocol_amount \<le> u64_max
         \<and> creator_balance c + creator_amount \<le> u64_max
         \<and> total_fees_collected d + fee \<le> u64_max
         \<and> fees_collected c + fee \<le> u64_max
         \<and> protocol_amount + creator_amount = fee
         \<and> creator_amount * total_bps
             = fee * creator_fee_bps d + (fee * protocol_fee_bps d) mod total_bps
         \<and> d' = d \<lparr> protocol_balance := protocol_balance d + protocol_amount,
                     total_fees_collected := total_fees_collected d + fee \<rparr>
         \<and> c' = c \<lparr> creator_balance := creator_balance c + creator_amount,
                     fees_collected := fees_collected c + fee \<rparr>)"
proof -
  let ?t = "protocol_fee_bps d + creator_fee_bps d"
  let ?pa = "(fee * protocol_fee_bps d) div ?t"
  have le: "?pa \<le> fee" by (rule mult_div_le_self)
  have rem: "(fee - ?pa) * ?t = fee * creator_fee_bps d + (fee * protocol_fee_bps d) mod ?t"
  proof -
    have "?pa * ?t + (fee * protocol_fee_bps d) mod ?t = fee * protocol_fee_bps d"
      by (rule div_mult_mod_eq)
    moreover have "(fee - ?pa) * ?t = fee * ?t - ?pa * ?t"
      by (simp add: diff_mult_distrib)
    moreover have "fee * ?t = fee * protocol_fee_bps d + fee * creator_fee_bps d"
      by (simp add: distrib_left)
    ultimately show ?thesis by linarith
  qed
  show ?thesis
    using le rem
    by (auto simp: collect_fees_def Let_def not_less split: if_splits)
qed

theorem collect_fees_split_exact_witness:
  "collect_fees (fee_distributor_init 7) (create_token_fee_config 1 2) 1001 =
     Inr (fee_distributor_init 7 \<lparr> protocol_balance := 200, total_fees_collected := 1001 \<rparr>,
          create_token_fee_config 1 2 \<lparr> creator_balance := 801, fees_collected := 1001 \<rparr>)"
  by (simp add: collect_fees_split_exact fee_distributor_init_def create_token_fee_config_def
        u64_max_def Let_def)

text \<open>
  C10. In every reachable distributor state the divisor of the fee split,
  \<open>protocol_fee_bps + creator_fee_bps\<close>, is exactly 1000, hence positive, and
  \<open>collect_fees\<close> never aborts with a division by zero.
\<close>

theorem collect_fees_divisor_positive:
  "distributor_reachable d \<Longrightarrow>
     protocol_fee_bps d + creator_fee_bps d = 1000
     \<and> 0 < protocol_fee_bps d + creator_fee_bps d
     \<and> collect_fees d c fee \<noteq> Inl DivByZero"
proof -
  assume r: "distributor_reachable d"
  then have s: "protocol_fee_bps d + creator_fee_bps d = 1000"
    by (rule reachable_bps_sum)
  then show ?thesis
    by (auto simp: collect_fees_def Let_def split: if_splits)
qed

theorem collect_fees_divisor_positive_witness:
  "distributor_reachable (fee_distributor_init 7)
   \<and> protocol_fee_bps (fee_distributor_init 7) + creator_fee_bps (fee_distributor_init 7) = 1000
   \<and> collect_fees (fee_distributor_init 7) (create_token_fee_config 1 2) 0 \<noteq> Inl DivByZero"
  using collect_fees_divisor_positive [OF reach_init, of 7 "create_token_fee_config 1 2" 0]
  by (simp add: reach_init)

section \<open>Anti-bot engine: whitelist\<close>

lemma create_protection_p0: "create_protection 100 300 500 300 1000000 1 = Inr p0"
  by (simp add: create_protection_def p0_def u64_max_def)

lemma index_of_absent: "fst (index_of xs a) \<longleftrightarrow> a \<in> set xs"
  by (induction xs) (auto split: prod.splits bool.splits)

lemma index_of_present:
  "index_of xs a = (True, i) \<Longrightarrow> i < length xs \<and> take i xs @ drop (Suc i) xs = remove1 a xs"
proof (induction xs arbitrary: i)
  case Nil
  then show ?case by simp
next
  case (Cons x xs)
  show ?case
  proof (cases "x = a")
    case True
    with Cons.prems show ?thesis by simp
  next
    case False
    with Cons.prems obtain j where j: "index_of xs a = (True, j)" and i: "i = Suc j"
      by (auto split: prod.splits bool.splits)
    from Cons.IH [OF j] i False show ?thesis by simp
  qed
qed

lemma remove_from_whitelist_present:
  assumes "owner p = sender" and "a \<in> set (whitelist p)"
  shows "remove_from_whitelist p a sender = Inr (p \<lparr> whitelist := remove1 a (whitelist p) \<rparr>)"
proof -
  from assms(2) have "fst (index_of (whitelist p) a)" by (simp add: index_of_absent)
  then obtain i where i: "index_of (whitelist p) a = (True, i)"
    by (cases "index_of (whitelist p) a") auto
  from index_of_present [OF i] i assms(1) show ?thesis
    by (simp add: remove_from_whitelist_def vector_remove_def)
qed

lemma remove_from_whitelist_absent:
  assumes "owner p = sender" and "a \<notin> set (whitelist p)"
  shows "remove_from_whitelist p a sender = Inl (Abort EAddressNotWhitelisted)"
proof -
  from assms(2) have "\<not> fst (index_of (whitelist p) a)" by (simp add: index_of_absent)
  with assms(1) show ?thesis
    by (auto simp: remove_from_whitelist_def split: prod.splits)
qed

text \<open>
  C8. Whitelist mutation is owner-only and fail-loud. A caller other than the owner makes
  \<open>add_to_whitelist\<close> and \<open>remove_from_whitelist\<close> abort (code 0). For the owner, adding
  an address that is on the whitelist aborts with \<open>EAddressAlreadyWhitelisted\<close> and removing
  one that is not on it aborts with \<open>EAddressNotWhitelisted\<close>; adding an absent address
  appends it and removing a present one deletes it. After any aborted call the whitelist is
  what it was.
\<close>

theorem whitelist_mutation_fail_loud:
  "(sender \<noteq> owner p \<longrightarrow>
      add_to_whitelist p a sender = Inl (Abort 0)
      \<and> remove_from_whitelist p a sender = Inl (Abort 0))
   \<and> (sender = owner p \<and> a \<in> set (whitelist p) \<longrightarrow>
      add_to_whitelist p a sender = Inl (Abort EAddressAlreadyWhitelisted))
   \<and> (sender = owner p \<and> a \<notin> set (whitelist p) \<longrightarrow>
      remove_from_whitelist p a sender = Inl (Abort EAddressNotWhitelisted))
   \<and> (sender = owner p \<and> a \<notin> set (whitelist p) \<longrightarrow>
      add_to_whitelist p a sender = Inr (p \<lparr> whitelist := whitelist p @ [a] \<rparr>))
   \<and> (sender = owner p \<and> a \<in> set (whitelist p) \<longrightarrow>
      remove_from_whitelist p a sender = Inr (p \<lparr> whitelist := remove1 a (whitelist p) \<rparr>))
   \<and> (\<forall>e. add_to_whitelist p a sender = Inl e \<longrightarrow>
      whitelist (commit p (add_to_whitelist p a sender)) = whitelist p)
   \<and> (\<forall>e. remove_from_whitelist p a sender = Inl e \<longrightarrow>
      whitelist (commit p (remove_from_whitelist p a sender)) = whitelist p)"
proof -
  have 1: "sender \<noteq> owner p \<longrightarrow> add_to_whitelist p a sender = Inl (Abort 0)
      \<and> remove_from_whitelist p a sender = Inl (Abort 0)"
    by (auto simp: add_to_whitelist_def remove_from_whitelist_def)
  have 2: "sender = owner p \<and> a \<in> set (whitelist p) \<longrightarrow>
      add_to_whitelist p a sender = Inl (Abort EAddressAlreadyWhitelisted)"
    by (simp add: add_to_whitelist_def is_whitelisted_def)
  have 3: "sender = owner p \<and> a \<notin> set (whitelist p) \<longrightarrow>
      remove_from_whitelist p a sender = Inl (Abort EAddressNotWhitelisted)"
    using remove_from_whitelist_absent by simp
  have 4: "sender = owner p \<and> a \<notin> set (whitelist p) \<longrightarrow>
      add_to_whitelist p a sender = Inr (p \<lparr> whitelist := whitelist p @ [a] \<rparr>)"
    by (simp add: add_to_whitelist_def is_whitelisted_def)
  have 5: "sender = owner p \<and> a \<in> set (whitelist p) \<longrightarrow>
      remove_from_whitelist p a sender = Inr (p \<lparr> whitelist := remove1 a (whitelist p) \<rparr>)"
    using remove_from_whitelist_present by simp
  have 6: "\<forall>e. add_to_whitelist p a sender = Inl e \<longrightarrow>
      whitelist (commit p (add_to_whitelist p a sender)) = whitelist p"
    by simp
  have 7: "\<forall>e. remove_from_whitelist p a sender = Inl e \<longrightarrow>
      whitelist (commit p (remove_from_whitelist p a sender)) = whitelist p"
    by simp
  from 1 2 3 4 5 6 7 show ?thesis by blast
qed

theorem whitelist_mutation_fail_loud_witness:
  "add_to_whitelist p0 1 2 = Inl (Abort 0)
   \<and> remove_from_whitelist p0 1 2 = Inl (Abort 0)
   \<and> add_to_whitelist p0 1 1 = Inl (Abort EAddressAlreadyWhitelisted)
   \<and> remove_from_whitelist p0 5 1 = Inl (Abort EAddressNotWhitelisted)
   \<and> whitelist (commit p0 (add_to_whitelist p0 1 1)) = [1]
   \<and> whitelist (commit p0 (remove_from_whitelist p0 5 1)) = [1]
   \<and> whitelist (commit p0 (add_to_whitelist p0 5 1)) = [1, 5]
   \<and> whitelist (commit p0 (remove_from_whitelist p0 1 1)) = []"
  using whitelist_mutation_fail_loud [of 2 p0 1]
        whitelist_mutation_fail_loud [of 1 p0 1]
        whitelist_mutation_fail_loud [of 1 p0 5]
  by (simp add: p0_def)

section \<open>Liquidity lock escrow: properties\<close>

lemma lock_liquidity_stores:
  "lock_liquidity lockr0 clock0 amount ct duration depositor lock_id = Inr lockr \<Longrightarrow>
     locks lockr lock_id =
       Some \<lparr> token_balance = amount, token_type = ct, locker = depositor,
              unlock_time = clock0 div 1000 + duration \<rparr>"
  by (auto simp: lock_liquidity_def Let_def split: if_splits)

lemma unlock_liquidity_missing:
  "locks lockr lock_id = None \<Longrightarrow>
     unlock_liquidity lockr clock_ms lock_id sender = Inl (Abort ELockNotFound)"
  by (simp add: unlock_liquidity_def)

lemma unlock_liquidity_present:
  "locks lockr lock_id = Some lock \<Longrightarrow>
     unlock_liquidity lockr clock_ms lock_id sender =
       (if sender \<noteq> locker lock then Inl (Abort EInvalidLock)
        else if clock_ms div 1000 < unlock_time lock then Inl (Abort ELockStillActive)
        else Inr (lockr \<lparr> locks := (locks lockr)(lock_id := None) \<rparr>,
                  (locker lock, token_balance lock)))"
  by (auto simp: unlock_liquidity_def Let_def)

text \<open>
  C2. A lock made by \<open>lock_liquidity\<close> records the deposited amount, the depositor and
  \<open>unlock_time = now + duration\<close>. For every lock in the table: \<open>unlock_liquidity\<close> aborts
  when the caller is not the depositor, and aborts when \<open>now < unlock_time\<close>; for the
  depositor at \<open>now \<ge> unlock_time\<close> (so at \<open>now = unlock_time\<close>, and not at
  \<open>unlock_time - 1\<close>) it removes the record and transfers the whole recorded balance to
  the depositor, after which any further unlock of the same id aborts with
  \<open>ELockNotFound\<close>. After every aborted unlock the locker is what it was.
\<close>

theorem unlock_liquidity_maturity:
  "(lock_liquidity lockr0 clock0 amount ct duration depositor lock_id = Inr lockr \<longrightarrow>
      locks lockr lock_id =
        Some \<lparr> token_balance = amount, token_type = ct, locker = depositor,
               unlock_time = clock0 div 1000 + duration \<rparr>)
   \<and> (locks lockr lock_id = Some lock \<longrightarrow>
        (sender \<noteq> locker lock \<longrightarrow>
           unlock_liquidity lockr clock_ms lock_id sender = Inl (Abort EInvalidLock))
      \<and> (sender = locker lock \<and> clock_ms div 1000 < unlock_time lock \<longrightarrow>
           unlock_liquidity lockr clock_ms lock_id sender = Inl (Abort ELockStillActive))
      \<and> (sender = locker lock \<and> clock_ms div 1000 \<ge> unlock_time lock \<longrightarrow>
           unlock_liquidity lockr clock_ms lock_id sender =
             Inr (lockr \<lparr> locks := (locks lockr)(lock_id := None) \<rparr>,
                  (locker lock, token_balance lock))
           \<and> (\<forall>clock_ms' sender'.
                 unlock_liquidity (lockr \<lparr> locks := (locks lockr)(lock_id := None) \<rparr>)
                   clock_ms' lock_id sender' = Inl (Abort ELockNotFound))))
   \<and> (\<forall>e. unlock_liquidity lockr clock_ms lock_id sender = Inl e \<longrightarrow>
         commit lockr (map_sum id fst (unlock_liquidity lockr clock_ms lock_id sender)) = lockr)"
proof -
  have a: "lock_liquidity lockr0 clock0 amount ct duration depositor lock_id = Inr lockr \<longrightarrow>
      locks lockr lock_id =
        Some \<lparr> token_balance = amount, token_type = ct, locker = depositor,
               unlock_time = clock0 div 1000 + duration \<rparr>"
    using lock_liquidity_stores by blast
  have b: "locks lockr lock_id = Some lock \<longrightarrow>
        (sender \<noteq> locker lock \<longrightarrow>
           unlock_liquidity lockr clock_ms lock_id sender = Inl (Abort EInvalidLock))
      \<and> (sender = locker lock \<and> clock_ms div 1000 < unlock_time lock \<longrightarrow>
           unlock_liquidity lockr clock_ms lock_id sender = Inl (Abort ELockStillActive))
      \<and> (sender = locker lock \<and> clock_ms div 1000 \<ge> unlock_time lock \<longrightarrow>
           unlock_liquidity lockr clock_ms lock_id sender =
             Inr (lockr \<lparr> locks := (locks lockr)(lock_id := None) \<rparr>,
                  (locker lock, token_balance lock))
           \<and> (\<forall>clock_ms' sender'.
                 unlock_liquidity (lockr \<lparr> locks := (locks lockr)(lock_id := None) \<rparr>)
                   clock_ms' lock_id sender' = Inl (Abort ELockNotFound)))"
    by (simp add: unlock_liquidity_present unlock_liquidity_missing)
  have c: "\<forall>e. unlock_liquidity lockr clock_ms lock_id sender = Inl e \<longrightarrow>
         commit lockr (map_sum id fst (unlock_liquidity lockr clock_ms lock_id sender)) = lockr"
    by simp
  from a b c show ?thesis by blast
qed

lemma lock_liquidity_lk1:
  "lock_liquidity liquidity_locker_init 5000000 1000 50 2592000 1 9 = Inr lk1"
  by (simp add: lock_liquidity_def liquidity_locker_init_def lk1_def u64_max_def Let_def)

theorem unlock_liquidity_maturity_witness:
  "lock_liquidity liquidity_locker_init 5000000 1000 50 2592000 1 9 = Inr lk1
   \<and> unlock_liquidity lk1 2596999999 9 1 = Inl (Abort ELockStillActive)
   \<and> unlock_liquidity lk1 2597000000 9 2 = Inl (Abort EInvalidLock)
   \<and> unlock_liquidity lk1 2597000000 9 1 = Inr (lk1 \<lparr> locks := (locks lk1)(9 := None) \<rparr>, (1, 1000))
   \<and> unlock_liquidity (lk1 \<lparr> locks := (locks lk1)(9 := None) \<rparr>) 2597000000 9 1
       = Inl (Abort ELockNotFound)
   \<and> commit lk1 (map_sum id fst (unlock_liquidity lk1 2596999999 9 1)) = lk1"
proof -
  let ?lock = "\<lparr> token_balance = 1000, token_type = 50, locker = 1, unlock_time = 2597000 \<rparr>"
  have l: "locks lk1 9 = Some ?lock"
    by (simp add: lk1_def)
  show ?thesis
    using unlock_liquidity_maturity
            [of liquidity_locker_init 5000000 1000 50 2592000 1 9 lk1 ?lock 1 2596999999]
          unlock_liquidity_maturity
            [of liquidity_locker_init 5000000 1000 50 2592000 1 9 lk1 ?lock 2 2597000000]
          unlock_liquidity_maturity
            [of liquidity_locker_init 5000000 1000 50 2592000 1 9 lk1 ?lock 1 2597000000]
          l lock_liquidity_lk1
    by simp
qed

section \<open>Anti-bot engine: trading activation and buy tracking\<close>

lemma enable_trading_p0: "enable_trading p0 1 = Inr p0_enabled"
  by (simp add: enable_trading_def p0_def p0_enabled_def)


lemma check_can_buy_p1_second: "check_can_buy p1 2 50 1000 1600000 = Inr (True, p2)"
  by (simp add: check_can_buy_def is_whitelisted_def p0_def p1_def p2_def u64_max_def Let_def)

lemma check_can_buy_whitelisted:
  "is_whitelisted p buyer \<Longrightarrow> check_can_buy p buyer amount supply clock_ms = Inr (True, p)"
  by (simp add: check_can_buy_def)

lemma check_can_buy_not_enabled:
  "\<not> is_whitelisted p buyer \<Longrightarrow> buyer \<notin> dom (blacklist p) \<Longrightarrow> \<not> trading_enabled p
     \<Longrightarrow> clock_ms div 1000 < enable_time p
     \<Longrightarrow> check_can_buy p buyer amount supply clock_ms = Inl (Abort ETradingNotEnabled)"
  by (simp add: check_can_buy_def Let_def)

lemma check_can_buy_enabled_after:
  "check_can_buy p buyer amount supply clock_ms = Inr (r, p') \<Longrightarrow>
     trading_enabled p \<or> (\<not> is_whitelisted p buyer \<and> buyer \<notin> dom (blacklist p)
                           \<and> clock_ms div 1000 \<ge> enable_time p)
     \<Longrightarrow> trading_enabled p'"
  by (auto simp: check_can_buy_def Let_def split: if_splits option.splits)

lemma check_can_buy_passes:
  "check_can_buy p buyer amount supply clock_ms = Inr (r, p') \<Longrightarrow>
     buyer \<notin> dom (blacklist p) \<or> is_whitelisted p buyer \<Longrightarrow> r"
  by (auto simp: check_can_buy_def Let_def split: if_splits option.splits)

lemma anti_bot_exec_enabled:
  assumes en: "trading_enabled p"
  shows "trading_enabled (commit p (anti_bot_exec p c))"
proof (cases c)
  case (CheckCanBuy buyer amount tsupply clock_ms)
  show ?thesis
  proof (cases "check_can_buy p buyer amount tsupply clock_ms")
    case (Inl e)
    with CheckCanBuy en show ?thesis by simp
  next
    case (Inr rp)
    then have "check_can_buy p buyer amount tsupply clock_ms = Inr (fst rp, snd rp)" by simp
    from check_can_buy_enabled_after [OF this] en
    have "trading_enabled (snd rp)" by simp
    with CheckCanBuy Inr show ?thesis by simp
  qed
next
  case (AddToWhitelist addr sender)
  with en show ?thesis by (simp add: add_to_whitelist_def)
next
  case (RemoveFromWhitelist addr sender)
  with en show ?thesis
    by (auto simp: remove_from_whitelist_def vector_remove_def split: prod.splits)
next
  case (AddToBlacklist addr sender)
  with en show ?thesis by (simp add: add_to_blacklist_def)
next
  case (RemoveFromBlacklist addr sender)
  with en show ?thesis by (simp add: remove_from_blacklist_def)
next
  case (EnableTrading sender)
  with en show ?thesis by (simp add: enable_trading_def)
next
  case (UpdateMaxBuyPercent n sender)
  with en show ?thesis by (simp add: update_max_buy_percent_def)
next
  case (UpdateCooldownPeriod n sender)
  with en show ?thesis by (simp add: update_cooldown_period_def)
qed

lemma anti_bot_run_enabled:
  "trading_enabled p \<Longrightarrow> trading_enabled (anti_bot_run p cs)"
proof (induction cs arbitrary: p)
  case Nil
  then show ?case by simp
next
  case (Cons c cs)
  from Cons.prems have "trading_enabled (commit p (anti_bot_exec p c))"
    by (rule anti_bot_exec_enabled)
  then show ?case using Cons.IH by simp
qed

lemma check_can_buy_tracking:
  "check_can_buy p buyer amount tsupply clock_ms = Inr (True, p') \<Longrightarrow> \<not> is_whitelisted p buyer
     \<Longrightarrow> buy_tracking p' =
          (buy_tracking p)
            (buyer \<mapsto> \<lparr> total_bought =
                          (case buy_tracking p buyer of None \<Rightarrow> 0 | Some b \<Rightarrow> total_bought b)
                            + amount,
                        last_buy_time = clock_ms div 1000 \<rparr>)"
  by (auto simp: check_can_buy_def Let_def split: if_splits option.splits)


lemma trading_enabled_update_True:
  "trading_enabled p \<Longrightarrow> p \<lparr> trading_enabled := True \<rparr> = p"
  by (cases p) simp

lemma check_can_buy_activated:
  assumes nw: "\<not> is_whitelisted p buyer" and nb: "buyer \<notin> dom (blacklist p)"
    and t: "trading_enabled p \<or> enable_time p \<le> clock_ms div 1000"
  shows "check_can_buy p buyer amount tsupply clock_ms =
     (if tsupply * max_buy_percent p > u64_max then Inl Overflow
      else if \<not> amount \<le> (tsupply * max_buy_percent p) div 10000
        then Inl (Abort EExceedsMaxBuyLimit)
      else
        (case buy_tracking p buyer of
           None \<Rightarrow>
             Inr (True,
                  p \<lparr> trading_enabled := True,
                      buy_tracking := (buy_tracking p)
                        (buyer \<mapsto> \<lparr> total_bought = amount,
                                    last_buy_time = clock_ms div 1000 \<rparr>) \<rparr>)
         | Some buy_info \<Rightarrow>
             if clock_ms div 1000 < last_buy_time buy_info then Inl Underflow
             else if \<not> (clock_ms div 1000 - last_buy_time buy_info) \<ge> cooldown_period p
               then Inl (Abort EInsufficientCooldown)
             else if total_bought buy_info + amount > u64_max then Inl Overflow
             else
               Inr (True,
                    p \<lparr> trading_enabled := True,
                        buy_tracking := (buy_tracking p)
                          (buyer \<mapsto> buy_info
                             \<lparr> total_bought := total_bought buy_info + amount,
                               last_buy_time := clock_ms div 1000 \<rparr>) \<rparr>)))"
proof (cases "trading_enabled p")
  case True
  from trading_enabled_update_True [OF True] have e: "p \<lparr> trading_enabled := True \<rparr> = p" .
  from nw nb True show ?thesis
    by (auto simp: check_can_buy_def Let_def e split: option.splits)
next
  case False
  with t have "enable_time p \<le> clock_ms div 1000" by simp
  with nw nb False show ?thesis
    by (auto simp: check_can_buy_def is_whitelisted_def Let_def split: option.splits)
qed

text \<open>
  C3, as amended. The flag \<open>trading_enabled\<close> is monotonic: once it is true it is true
  after every sequence of calls of the module. For a buyer who is neither whitelisted nor
  blacklisted: while the flag is false, \<open>check_can_buy\<close> before \<open>enable_time\<close> aborts with
  \<open>ETradingNotEnabled\<close>. At or after \<open>enable_time\<close> the call activates trading whatever the
  flag was: it never aborts with \<open>ETradingNotEnabled\<close>; it aborts only on the overflow of
  the cap product, on the buy cap, on the cooldown (or the underflow of its subtraction) or on
  the overflow of the total; otherwise it returns true and leaves the flag true together
  with the buyer's updated record. A call that completes returns true and leaves the flag
  true, and the flag stays true under every later sequence of calls.
\<close>

theorem trading_enabled_monotonic:
  "(trading_enabled p \<longrightarrow> trading_enabled (anti_bot_run p cs))
   \<and> (\<not> is_whitelisted p buyer \<and> buyer \<notin> dom (blacklist p) \<and> \<not> trading_enabled p
        \<and> clock_ms div 1000 < enable_time p \<longrightarrow>
       check_can_buy p buyer amount tsupply clock_ms = Inl (Abort ETradingNotEnabled))
   \<and> (\<not> is_whitelisted p buyer \<and> buyer \<notin> dom (blacklist p)
        \<and> clock_ms div 1000 \<ge> enable_time p
        \<and> check_can_buy p buyer amount tsupply clock_ms = Inr (r, p') \<longrightarrow>
       r \<and> trading_enabled p' \<and> trading_enabled (anti_bot_run p' cs))
   \<and> (\<not> is_whitelisted p buyer \<and> buyer \<notin> dom (blacklist p)
        \<and> clock_ms div 1000 \<ge> enable_time p \<longrightarrow>
       check_can_buy p buyer amount tsupply clock_ms \<noteq> Inl (Abort ETradingNotEnabled)
       \<and> check_can_buy p buyer amount tsupply clock_ms =
           (if tsupply * max_buy_percent p > u64_max then Inl Overflow
            else if \<not> amount \<le> (tsupply * max_buy_percent p) div 10000
              then Inl (Abort EExceedsMaxBuyLimit)
            else
              (case buy_tracking p buyer of
                 None \<Rightarrow>
                   Inr (True,
                        p \<lparr> trading_enabled := True,
                            buy_tracking := (buy_tracking p)
                              (buyer \<mapsto> \<lparr> total_bought = amount,
                                          last_buy_time = clock_ms div 1000 \<rparr>) \<rparr>)
               | Some buy_info \<Rightarrow>
                   if clock_ms div 1000 < last_buy_time buy_info then Inl Underflow
                   else if \<not> (clock_ms div 1000 - last_buy_time buy_info) \<ge> cooldown_period p
                     then Inl (Abort EInsufficientCooldown)
                   else if total_bought buy_info + amount > u64_max then Inl Overflow
                   else
                     Inr (True,
                          p \<lparr> trading_enabled := True,
                              buy_tracking := (buy_tracking p)
                                (buyer \<mapsto> buy_info
                                   \<lparr> total_bought := total_bought buy_info + amount,
                                     last_buy_time := clock_ms div 1000 \<rparr>) \<rparr>))))"
proof -
  have a: "trading_enabled p \<longrightarrow> trading_enabled (anti_bot_run p cs)"
    using anti_bot_run_enabled by blast
  have b: "\<not> is_whitelisted p buyer \<and> buyer \<notin> dom (blacklist p) \<and> \<not> trading_enabled p
        \<and> clock_ms div 1000 < enable_time p \<longrightarrow>
       check_can_buy p buyer amount tsupply clock_ms = Inl (Abort ETradingNotEnabled)"
    using check_can_buy_not_enabled by blast
  have c: "\<not> is_whitelisted p buyer \<and> buyer \<notin> dom (blacklist p)
        \<and> clock_ms div 1000 \<ge> enable_time p
        \<and> check_can_buy p buyer amount tsupply clock_ms = Inr (r, p') \<longrightarrow>
       r \<and> trading_enabled p' \<and> trading_enabled (anti_bot_run p' cs)"
  proof (intro impI, elim conjE)
    assume nw: "\<not> is_whitelisted p buyer" and nb: "buyer \<notin> dom (blacklist p)"
      and t: "enable_time p \<le> clock_ms div 1000"
      and ok: "check_can_buy p buyer amount tsupply clock_ms = Inr (r, p')"
    from check_can_buy_passes [OF ok] nb have r by simp
    moreover from check_can_buy_enabled_after [OF ok] nw nb t have e: "trading_enabled p'"
      by simp
    moreover from e have "trading_enabled (anti_bot_run p' cs)"
      by (rule anti_bot_run_enabled)
    ultimately show "r \<and> trading_enabled p' \<and> trading_enabled (anti_bot_run p' cs)"
      by simp
  qed
  let ?rhs = "(if tsupply * max_buy_percent p > u64_max then Inl Overflow
            else if \<not> amount \<le> (tsupply * max_buy_percent p) div 10000
              then Inl (Abort EExceedsMaxBuyLimit)
            else
              (case buy_tracking p buyer of
                 None \<Rightarrow>
                   Inr (True,
                        p \<lparr> trading_enabled := True,
                            buy_tracking := (buy_tracking p)
                              (buyer \<mapsto> \<lparr> total_bought = amount,
                                          last_buy_time = clock_ms div 1000 \<rparr>) \<rparr>)
               | Some buy_info \<Rightarrow>
                   if clock_ms div 1000 < last_buy_time buy_info then Inl Underflow
                   else if \<not> (clock_ms div 1000 - last_buy_time buy_info) \<ge> cooldown_period p
                     then Inl (Abort EInsufficientCooldown)
                   else if total_bought buy_info + amount > u64_max then Inl Overflow
                   else
                     Inr (True,
                          p \<lparr> trading_enabled := True,
                              buy_tracking := (buy_tracking p)
                                (buyer \<mapsto> buy_info
                                   \<lparr> total_bought := total_bought buy_info + amount,
                                     last_buy_time := clock_ms div 1000 \<rparr>) \<rparr>)))"
  have ne: "?rhs \<noteq> Inl (Abort ETradingNotEnabled)"
    by (simp add: ETradingNotEnabled_def EExceedsMaxBuyLimit_def EInsufficientCooldown_def
          split: option.splits)
  have d: "\<not> is_whitelisted p buyer \<and> buyer \<notin> dom (blacklist p)
        \<and> clock_ms div 1000 \<ge> enable_time p \<longrightarrow>
       check_can_buy p buyer amount tsupply clock_ms \<noteq> Inl (Abort ETradingNotEnabled)
       \<and> check_can_buy p buyer amount tsupply clock_ms = ?rhs"
  proof (intro impI, elim conjE)
    assume nw: "\<not> is_whitelisted p buyer" and nb: "buyer \<notin> dom (blacklist p)"
      and t: "enable_time p \<le> clock_ms div 1000"
    from t have t': "trading_enabled p \<or> enable_time p \<le> clock_ms div 1000" by simp
    have eq: "check_can_buy p buyer amount tsupply clock_ms = ?rhs"
      by (rule check_can_buy_activated [OF nw nb t'])
    with ne show "check_can_buy p buyer amount tsupply clock_ms \<noteq> Inl (Abort ETradingNotEnabled)
       \<and> check_can_buy p buyer amount tsupply clock_ms = ?rhs"
      by simp
  qed
  from a b c d show ?thesis by blast
qed

theorem trading_enabled_monotonic_witness:
  "trading_enabled
     (anti_bot_run p0_enabled
        [CheckCanBuy 2 50 1000 1200000, UpdateMaxBuyPercent 100 1, RemoveFromWhitelist 1 1])
   \<and> check_can_buy p0 2 50 1000 1299999 = Inl (Abort ETradingNotEnabled)
   \<and> check_can_buy p0 2 50 1000 1300000 = Inr (True, p1)
   \<and> check_can_buy p0 2 51 1000 1300000 = Inl (Abort EExceedsMaxBuyLimit)
   \<and> check_can_buy p0 2 51 1000 1300000 \<noteq> Inl (Abort ETradingNotEnabled)
   \<and> trading_enabled p1
   \<and> trading_enabled (anti_bot_run p1 [CheckCanBuy 2 50 1000 1600000, AddToBlacklist 2 1])"
proof -
  have h: "\<not> is_whitelisted p0 2" "2 \<notin> dom (blacklist p0)" "\<not> trading_enabled p0"
    "(1299999 :: nat) div 1000 < enable_time p0" "enable_time p0 \<le> (1300000 :: nat) div 1000"
    "trading_enabled p0_enabled"
    by (simp_all add: p0_def p0_enabled_def is_whitelisted_def)
  have m: "max_buy_percent p0 = 500" "buy_tracking p0 2 = None"
    by (simp_all add: p0_def)
  have q: "p0 \<lparr> trading_enabled := True,
               buy_tracking := (buy_tracking p0)
                 (2 \<mapsto> \<lparr> total_bought = 50, last_buy_time = 1300000 div 1000 \<rparr>) \<rparr> = p1"
    by (simp add: p0_def p1_def)
  have first: "check_can_buy p0 2 50 1000 1300000 = Inr (True, p1)"
    using trading_enabled_monotonic
            [where p = p0 and buyer = 2 and amount = 50 and tsupply = 1000
               and clock_ms = 1300000 and cs = "[]"] h m q
    by (simp add: u64_max_def)
  have over: "check_can_buy p0 2 51 1000 1300000 = Inl (Abort EExceedsMaxBuyLimit)
      \<and> check_can_buy p0 2 51 1000 1300000 \<noteq> Inl (Abort ETradingNotEnabled)"
    using trading_enabled_monotonic
            [where p = p0 and buyer = 2 and amount = 51 and tsupply = 1000
               and clock_ms = 1300000 and cs = "[]"] h m
    by (simp add: u64_max_def ETradingNotEnabled_def EExceedsMaxBuyLimit_def)
  have before: "check_can_buy p0 2 50 1000 1299999 = Inl (Abort ETradingNotEnabled)"
    using trading_enabled_monotonic
            [where p = p0 and buyer = 2 and amount = 50 and tsupply = 1000
               and clock_ms = 1299999 and cs = "[]"] h
    by simp
  have run0: "trading_enabled
     (anti_bot_run p0_enabled
        [CheckCanBuy 2 50 1000 1200000, UpdateMaxBuyPercent 100 1, RemoveFromWhitelist 1 1])"
    using trading_enabled_monotonic
            [where p = p0_enabled and buyer = 2 and clock_ms = 0
               and cs = "[CheckCanBuy 2 50 1000 1200000, UpdateMaxBuyPercent 100 1,
                          RemoveFromWhitelist 1 1]"] h
    by blast
  have after: "trading_enabled p1
      \<and> trading_enabled (anti_bot_run p1 [CheckCanBuy 2 50 1000 1600000, AddToBlacklist 2 1])"
    using trading_enabled_monotonic
            [where p = p0 and buyer = 2 and amount = 50 and tsupply = 1000
               and clock_ms = 1300000 and r = True and p' = p1
               and cs = "[CheckCanBuy 2 50 1000 1600000, AddToBlacklist 2 1]"] h first
    by blast
  from run0 before first over after show ?thesis by blast
qed

theorem trading_activation_counterexample:
  "enable_trading p0 1 = Inr p0_enabled
   \<and> \<not> is_whitelisted p0_enabled 2 \<and> 2 \<notin> dom (blacklist p0_enabled)
   \<and> (1200000 :: nat) div 1000 < enable_time p0_enabled
   \<and> check_can_buy p0_enabled 2 50 1000 1200000 =
        Inr (True, p0_enabled
                     \<lparr> buy_tracking := [2 \<mapsto> \<lparr> total_bought = 50, last_buy_time = 1200 \<rparr>] \<rparr>)
   \<and> \<not> is_whitelisted p0 2 \<and> 2 \<notin> dom (blacklist p0) \<and> \<not> trading_enabled p0
   \<and> enable_time p0 \<le> (1300000 :: nat) div 1000
   \<and> check_can_buy p0 2 51 1000 1300000 = Inl (Abort EExceedsMaxBuyLimit)
   \<and> \<not> trading_enabled (commit p0 (anti_bot_exec p0 (CheckCanBuy 2 51 1000 1300000)))"
  by (simp add: enable_trading_def check_can_buy_def is_whitelisted_def p0_def p0_enabled_def
        u64_max_def Let_def)

text \<open>
  C4, as amended. A whitelisted buyer always passes, before any other check, and the
  call changes nothing, the tracking table included. For every buyer who is not whitelisted
  and for whom \<open>check_can_buy\<close> passes, the buyer's record is upserted: \<open>total_bought\<close> is
  the previous total (0 without a record) plus the amount, \<open>last_buy_time\<close> is the current
  time in seconds; no other record changes.
\<close>

theorem check_can_buy_upsert:
  "(is_whitelisted p buyer \<longrightarrow> check_can_buy p buyer amount tsupply clock_ms = Inr (True, p))
   \<and> (\<not> is_whitelisted p buyer \<and> check_can_buy p buyer amount tsupply clock_ms = Inr (True, p')
        \<longrightarrow>
       buy_tracking p' buyer =
         Some \<lparr> total_bought =
                  (case buy_tracking p buyer of None \<Rightarrow> 0 | Some b \<Rightarrow> total_bought b) + amount,
                last_buy_time = clock_ms div 1000 \<rparr>
       \<and> (\<forall>other. other \<noteq> buyer \<longrightarrow> buy_tracking p' other = buy_tracking p other))"
proof -
  have a: "is_whitelisted p buyer \<longrightarrow>
      check_can_buy p buyer amount tsupply clock_ms = Inr (True, p)"
    using check_can_buy_whitelisted by blast
  have b: "\<not> is_whitelisted p buyer
        \<and> check_can_buy p buyer amount tsupply clock_ms = Inr (True, p') \<longrightarrow>
       buy_tracking p' buyer =
         Some \<lparr> total_bought =
                  (case buy_tracking p buyer of None \<Rightarrow> 0 | Some b \<Rightarrow> total_bought b) + amount,
                last_buy_time = clock_ms div 1000 \<rparr>
       \<and> (\<forall>other. other \<noteq> buyer \<longrightarrow> buy_tracking p' other = buy_tracking p other)"
  proof (intro impI, elim conjE)
    assume nw: "\<not> is_whitelisted p buyer"
      and ok: "check_can_buy p buyer amount tsupply clock_ms = Inr (True, p')"
    from check_can_buy_tracking [OF ok nw]
    show "buy_tracking p' buyer =
         Some \<lparr> total_bought =
                  (case buy_tracking p buyer of None \<Rightarrow> 0 | Some b \<Rightarrow> total_bought b) + amount,
                last_buy_time = clock_ms div 1000 \<rparr>
       \<and> (\<forall>other. other \<noteq> buyer \<longrightarrow> buy_tracking p' other = buy_tracking p other)"
      by simp
  qed
  from a b show ?thesis by blast
qed

theorem check_can_buy_upsert_witness:
  "check_can_buy p0 1 999 1000 0 = Inr (True, p0)
   \<and> check_can_buy p1 2 50 1000 1600000 = Inr (True, p2)
   \<and> buy_tracking p1 2 = Some \<lparr> total_bought = 50, last_buy_time = 1300 \<rparr>
   \<and> buy_tracking p2 2 = Some \<lparr> total_bought = 100, last_buy_time = 1600 \<rparr>"
  using check_can_buy_upsert [where p = p0 and buyer = 1 and amount = 999 and tsupply = 1000
                                and clock_ms = 0]
        check_can_buy_upsert [where p = p1 and buyer = 2 and amount = 50 and tsupply = 1000
                                and clock_ms = 1600000 and p' = p2]
        check_can_buy_p1_second
  by (simp add: p0_def p1_def is_whitelisted_def)

theorem check_can_buy_upsert_counterexample:
  "check_can_buy p0 1 10 1000 1300000 = Inr (True, p0) \<and> buy_tracking p0 1 = None"
  by (simp add: check_can_buy_def is_whitelisted_def p0_def)



section \<open>Rate limiter: properties\<close>

lemma isRateLimited_other:
  "v \<noteq> u \<Longrightarrow> snd (isRateLimited tr v t) u = tr u"
  by (simp add: isRateLimited_def split: option.splits)

lemma isRateLimited_start:
  assumes "window_starts tr u t"
  shows "\<not> fst (isRateLimited tr u t)
         \<and> (\<exists>d. snd (isRateLimited tr u t) u = Some d
                \<and> count d = 1 \<and> firstRequest d = t \<and> \<not> isCoolingDown d)"
  using assms
  by (auto simp: window_starts_def isRateLimited_def split: option.splits if_splits)

lemma isRateLimited_in_window:
  assumes "tr u = Some d" and "\<not> isCoolingDown d" and "t - firstRequest d < timeWindow"
    and "count d < maxRequests"
  shows "isRateLimited tr u t = (False, tr(u \<mapsto> d \<lparr> count := count d + 1 \<rparr>))"
  using assms by (simp add: isRateLimited_def)

lemma isRateLimited_exceeded:
  assumes "tr u = Some d" and "\<not> isCoolingDown d" and "t - firstRequest d < timeWindow"
    and "count d \<ge> maxRequests"
  shows "isRateLimited tr u t =
           (True, tr(u \<mapsto> d \<lparr> isCoolingDown := True, cooldownUntil := t + cooldown \<rparr>))"
  using assms by (simp add: isRateLimited_def)

lemma isRateLimited_cooling:
  assumes "tr u = Some d" and "isCoolingDown d"
  shows "isRateLimited tr u t =
           (if t < cooldownUntil d then (True, tr)
            else (False, tr(u \<mapsto> d \<lparr> count := 1, firstRequest := t,
                                      isCoolingDown := False \<rparr>)))"
  using assms by (simp add: isRateLimited_def)

text \<open>
  C5. With \<open>maxRequests = 3\<close>, \<open>timeWindow = 3600\<close> and \<open>cooldown = 86400\<close>: let a check of
  actor \<open>u\<close> at \<open>t1\<close> open a window, and let three more checks of \<open>u\<close> follow at \<open>t2\<close>,
  \<open>t3\<close>, \<open>t4\<close>, all less than 3600 s after \<open>t1\<close> (checks of other actors may come in
  between: they leave the entry of \<open>u\<close> alone). Then the checks at \<open>t1\<close>, \<open>t2\<close>, \<open>t3\<close> are
  allowed, the one at \<open>t4\<close> is rate limited and starts a cooldown until \<open>t4 + 86400\<close>;
  every check of \<open>u\<close> before that time is rejected and changes nothing; and a check at or
  after that time is allowed and leaves a window that starts at that check with count 1.
\<close>

theorem rate_limit_window_and_cooldown:
  assumes "window_starts tr0 u t1"
    and "tr1 u = snd (isRateLimited tr0 u t1) u"
    and "tr2 u = snd (isRateLimited tr1 u t2) u"
    and "tr3 u = snd (isRateLimited tr2 u t3) u"
    and "tr4 u = snd (isRateLimited tr3 u t4) u"
    and "t2 - t1 < 3600" and "t3 - t1 < 3600" and "t4 - t1 < 3600"
  shows "\<not> fst (isRateLimited tr0 u t1)
         \<and> \<not> fst (isRateLimited tr1 u t2)
         \<and> \<not> fst (isRateLimited tr2 u t3)
         \<and> fst (isRateLimited tr3 u t4)
         \<and> tr4 u = Some \<lparr> count = 3, firstRequest = t1, isCoolingDown = True,
                            cooldownUntil = t4 + 86400 \<rparr>
         \<and> (\<forall>t. t < t4 + 86400 \<longrightarrow> isRateLimited tr4 u t = (True, tr4))
         \<and> (\<forall>t. t \<ge> t4 + 86400 \<longrightarrow>
               isRateLimited tr4 u t =
                 (False, tr4(u \<mapsto> \<lparr> count = 1, firstRequest = t, isCoolingDown = False,
                                     cooldownUntil = t4 + 86400 \<rparr>)))
         \<and> (\<forall>v t. v \<noteq> u \<longrightarrow> snd (isRateLimited tr0 v t) u = tr0 u)"
proof -
  from isRateLimited_start [OF assms(1)] assms(2)
  obtain d1 where a1: "\<not> fst (isRateLimited tr0 u t1)"
    and d1: "tr1 u = Some d1" "count d1 = 1" "firstRequest d1 = t1" "\<not> isCoolingDown d1"
    by auto
  from d1 assms(6) have s2: "isRateLimited tr1 u t2 = (False, tr1(u \<mapsto> d1 \<lparr> count := 2 \<rparr>))"
    using isRateLimited_in_window [of tr1 u d1 t2]
    by (simp add: timeWindow_def maxRequests_def)
  with assms(3) have d2: "tr2 u = Some (d1 \<lparr> count := 2 \<rparr>)" by simp
  from d2 d1 assms(7)
  have s3: "isRateLimited tr2 u t3 = (False, tr2(u \<mapsto> d1 \<lparr> count := 3 \<rparr>))"
    using isRateLimited_in_window [of tr2 u "d1 \<lparr> count := 2 \<rparr>" t3]
    by (simp add: timeWindow_def maxRequests_def)
  with assms(4) have d3: "tr3 u = Some (d1 \<lparr> count := 3 \<rparr>)" by simp
  from d3 d1 assms(8)
  have s4: "isRateLimited tr3 u t4 =
      (True, tr3(u \<mapsto> d1 \<lparr> count := 3, isCoolingDown := True, cooldownUntil := t4 + 86400 \<rparr>))"
    using isRateLimited_exceeded [of tr3 u "d1 \<lparr> count := 3 \<rparr>" t4]
    by (simp add: timeWindow_def maxRequests_def cooldown_def)
  with assms(5)
  have d4: "tr4 u = Some (d1 \<lparr> count := 3, isCoolingDown := True, cooldownUntil := t4 + 86400 \<rparr>)"
    by simp
  have e4: "d1 \<lparr> count := 3, isCoolingDown := True, cooldownUntil := t4 + 86400 \<rparr>
      = \<lparr> count = 3, firstRequest = t1, isCoolingDown = True, cooldownUntil = t4 + 86400 \<rparr>"
    using d1 by (cases d1) simp
  have c5: "\<forall>t. t < t4 + 86400 \<longrightarrow> isRateLimited tr4 u t = (True, tr4)"
    using isRateLimited_cooling [of tr4 u _ _, OF d4] by simp
  have c6: "\<forall>t. t \<ge> t4 + 86400 \<longrightarrow>
               isRateLimited tr4 u t =
                 (False, tr4(u \<mapsto> \<lparr> count = 1, firstRequest = t, isCoolingDown = False,
                                     cooldownUntil = t4 + 86400 \<rparr>))"
    using isRateLimited_cooling [of tr4 u _ _, OF d4] e4 by simp
  have c7: "\<forall>v t. v \<noteq> u \<longrightarrow> snd (isRateLimited tr0 v t) u = tr0 u"
    using isRateLimited_other by blast
  from a1 s2 s3 s4 d4 e4 c5 c6 c7 show ?thesis by simp
qed

theorem rate_limit_window_and_cooldown_witness:
  "isRateLimited Map.empty 42 0 = (False, tk1)
   \<and> isRateLimited tk1 42 10 = (False, tk2)
   \<and> isRateLimited tk2 42 20 = (False, tk3)
   \<and> isRateLimited tk3 42 30 = (True, tk4)
   \<and> isRateLimited tk4 42 86429 = (True, tk4)
   \<and> isRateLimited tk4 42 86430 =
        (False, tk4(42 \<mapsto> \<lparr> count = 1, firstRequest = 86430, isCoolingDown = False,
                             cooldownUntil = 86430 \<rparr>))"
proof -
  have h0: "window_starts Map.empty 42 0" by (simp add: window_starts_def)
  have h1: "isRateLimited Map.empty 42 0 = (False, tk1)"
    by (simp add: isRateLimited_def tk1_def)
  have h2: "isRateLimited tk1 42 10 = (False, tk2)"
    by (simp add: isRateLimited_def tk1_def tk2_def timeWindow_def maxRequests_def)
  have h3: "isRateLimited tk2 42 20 = (False, tk3)"
    by (simp add: isRateLimited_def tk2_def tk3_def timeWindow_def maxRequests_def)
  have h4: "isRateLimited tk3 42 30 = (True, tk4)"
    by (simp add: isRateLimited_def tk3_def tk4_def timeWindow_def maxRequests_def cooldown_def)
  have "(\<forall>t. t < 30 + 86400 \<longrightarrow> isRateLimited tk4 42 t = (True, tk4))
      \<and> (\<forall>t. t \<ge> 30 + 86400 \<longrightarrow>
               isRateLimited tk4 42 t =
                 (False, tk4(42 \<mapsto> \<lparr> count = 1, firstRequest = t, isCoolingDown = False,
                                     cooldownUntil = 30 + 86400 \<rparr>)))"
    using rate_limit_window_and_cooldown
            [of Map.empty 42 0 tk1 tk2 10 tk3 20 tk4 30] h0 h1 h2 h3 h4
    by simp
  with h1 h2 h3 h4 show ?thesis by simp
qed

section \<open>Request normalizer: properties\<close>

lemma upper_char_not_lower:
  "c' \<in> set (upper_char c) \<Longrightarrow> \<not> (97 \<le> (of_char c' :: nat) \<and> (of_char c' :: nat) \<le> 122)"
  by (auto simp: upper_char_def Let_def split: if_splits)

lemma toUpperCase_not_lower:
  "c' \<in> set (toUpperCase s) \<Longrightarrow> \<not> (97 \<le> (of_char c' :: nat) \<and> (of_char c' :: nat) \<le> 122)"
  using upper_char_not_lower by (auto simp: toUpperCase_def)

lemma validateTokenParams_symbol:
  assumes "isTokenRequest tp" and "\<not> confidence tp < 70" and "truthy (tokenName tp)"
    and "tokenSymbol tp = Some s" and "s \<noteq> []"
  shows "validateTokenParams tp e =
     (let v2 = \<lparr> tokenName = Some (filter (\<lambda>c. is_word_char c \<or> is_space c)
                                     (trim (the (tokenName tp)))),
                 tokenSymbol = Some (filter is_word_char (toUpperCase (trim s))),
                 memeTheme = None, emoji = None, isValid = True, reason_v = None \<rparr>
      in if length (filter is_word_char (toUpperCase (trim s))) < 2
            \<or> length (filter is_word_char (toUpperCase (trim s))) > 5
         then v2 \<lparr> isValid := False, reason_v := Some ''Token symbol must be 2-5 characters'' \<rparr>
         else v2 \<lparr> memeTheme := (if truthy (memeTheme tp) then Some (trim (the (memeTheme tp)))
                                  else Some ''Generic meme token''),
                   emoji := (if truthy (emoji tp) then emoji tp else Some e) \<rparr>)"
  using assms by (simp add: validateTokenParams_def truthy_def Let_def)

lemma request_with_symbol_passes:
  "isTokenRequest (request_with_symbol x)"
  "\<not> confidence (request_with_symbol x) < 70"
  "truthy (tokenName (request_with_symbol x))"
  "tokenSymbol (request_with_symbol x) = Some x"
  by (simp_all add: request_with_symbol_def truthy_def)

text \<open>
  C7, as amended. For every request that passes the request and confidence check and has
  a name and a non-empty symbol, the symbol is trimmed, upper-cased and stripped of every
  character that is not an ASCII letter, a digit or the underscore; the request is
  rejected, with the reason \<open>Token symbol must be 2-5 characters\<close>, exactly when the
  normalized symbol has fewer than 2 or more than 5 characters, and accepted otherwise.
  A missing or empty symbol is rejected with the reason \<open>Missing token symbol\<close>. In
  particular \<open>AB\<close>, \<open>ABCDE\<close> and \<open>ab$\<close> (normalized to \<open>AB\<close>) are accepted, \<open>A\<close> and
  \<open>ABCDEF\<close> are rejected.
\<close>

theorem symbol_normalization_and_length:
  "(isTokenRequest tp \<and> \<not> confidence tp < 70 \<and> truthy (tokenName tp)
      \<and> tokenSymbol tp = Some s \<and> s \<noteq> [] \<longrightarrow>
      tokenSymbol (validateTokenParams tp e) = Some (filter is_word_char (toUpperCase (trim s)))
      \<and> (\<forall>c \<in> set (filter is_word_char (toUpperCase (trim s))).
            is_word_char c \<and> \<not> (97 \<le> (of_char c :: nat) \<and> (of_char c :: nat) \<le> 122))
      \<and> (isValid (validateTokenParams tp e) \<longleftrightarrow>
            2 \<le> length (filter is_word_char (toUpperCase (trim s)))
            \<and> length (filter is_word_char (toUpperCase (trim s))) \<le> 5)
      \<and> (reason_v (validateTokenParams tp e) = Some ''Token symbol must be 2-5 characters'' \<longleftrightarrow>
            length (filter is_word_char (toUpperCase (trim s))) < 2
            \<or> length (filter is_word_char (toUpperCase (trim s))) > 5))
   \<and> (isTokenRequest tp \<and> \<not> confidence tp < 70 \<and> truthy (tokenName tp)
      \<and> \<not> truthy (tokenSymbol tp) \<longrightarrow>
      \<not> isValid (validateTokenParams tp e)
      \<and> reason_v (validateTokenParams tp e) = Some ''Missing token symbol'')
   \<and> isValid (validateTokenParams (request_with_symbol ''AB'') e)
   \<and> isValid (validateTokenParams (request_with_symbol ''ABCDE'') e)
   \<and> isValid (validateTokenParams (request_with_symbol ''ab$'') e)
   \<and> tokenSymbol (validateTokenParams (request_with_symbol ''ab$'') e) = Some ''AB''
   \<and> \<not> isValid (validateTokenParams (request_with_symbol ''A'') e)
   \<and> reason_v (validateTokenParams (request_with_symbol ''A'') e)
       = Some ''Token symbol must be 2-5 characters''
   \<and> \<not> isValid (validateTokenParams (request_with_symbol ''ABCDEF'') e)
   \<and> reason_v (validateTokenParams (request_with_symbol ''ABCDEF'') e)
       = Some ''Token symbol must be 2-5 characters''"
proof -
  let ?n = "filter is_word_char (toUpperCase (trim s))"
  have g: "isTokenRequest tp \<and> \<not> confidence tp < 70 \<and> truthy (tokenName tp)
      \<and> tokenSymbol tp = Some s \<and> s \<noteq> [] \<longrightarrow>
      tokenSymbol (validateTokenParams tp e) = Some ?n
      \<and> (\<forall>c \<in> set ?n. is_word_char c \<and> \<not> (97 \<le> (of_char c :: nat) \<and> (of_char c :: nat) \<le> 122))
      \<and> (isValid (validateTokenParams tp e) \<longleftrightarrow> 2 \<le> length ?n \<and> length ?n \<le> 5)
      \<and> (reason_v (validateTokenParams tp e) = Some ''Token symbol must be 2-5 characters'' \<longleftrightarrow>
            length ?n < 2 \<or> length ?n > 5)"
  proof (intro impI, elim conjE)
    assume h: "isTokenRequest tp" "\<not> confidence tp < 70" "truthy (tokenName tp)"
      "tokenSymbol tp = Some s" "s \<noteq> []"
    have up: "\<forall>c \<in> set ?n. is_word_char c
        \<and> \<not> (97 \<le> (of_char c :: nat) \<and> (of_char c :: nat) \<le> 122)"
      using toUpperCase_not_lower by auto
    show "tokenSymbol (validateTokenParams tp e) = Some ?n
      \<and> (\<forall>c \<in> set ?n. is_word_char c \<and> \<not> (97 \<le> (of_char c :: nat) \<and> (of_char c :: nat) \<le> 122))
      \<and> (isValid (validateTokenParams tp e) \<longleftrightarrow> 2 \<le> length ?n \<and> length ?n \<le> 5)
      \<and> (reason_v (validateTokenParams tp e) = Some ''Token symbol must be 2-5 characters'' \<longleftrightarrow>
            length ?n < 2 \<or> length ?n > 5)"
      using up by (auto simp: validateTokenParams_symbol [OF h] Let_def)
  qed
  have m: "isTokenRequest tp \<and> \<not> confidence tp < 70 \<and> truthy (tokenName tp)
      \<and> \<not> truthy (tokenSymbol tp) \<longrightarrow>
      \<not> isValid (validateTokenParams tp e)
      \<and> reason_v (validateTokenParams tp e) = Some ''Missing token symbol''"
    by (simp add: validateTokenParams_def Let_def)
  note r = request_with_symbol_passes
  have n1: "filter is_word_char (toUpperCase (trim ''AB'')) = ''AB''" by code_simp
  have n2: "filter is_word_char (toUpperCase (trim ''ABCDE'')) = ''ABCDE''" by code_simp
  have n3: "filter is_word_char (toUpperCase (trim ''ab$'')) = ''AB''" by code_simp
  have n4: "filter is_word_char (toUpperCase (trim ''A'')) = ''A''" by code_simp
  have n5: "filter is_word_char (toUpperCase (trim ''ABCDEF'')) = ''ABCDEF''" by code_simp
  have e1: "isValid (validateTokenParams (request_with_symbol ''AB'') e)"
    by (simp add: validateTokenParams_symbol [OF r] n1 Let_def)
  have e2: "isValid (validateTokenParams (request_with_symbol ''ABCDE'') e)"
    by (simp add: validateTokenParams_symbol [OF r] n2 Let_def)
  have e3: "isValid (validateTokenParams (request_with_symbol ''ab$'') e)
      \<and> tokenSymbol (validateTokenParams (request_with_symbol ''ab$'') e) = Some ''AB''"
    by (simp add: validateTokenParams_symbol [OF r] n3 Let_def)
  have e4: "\<not> isValid (validateTokenParams (request_with_symbol ''A'') e)
      \<and> reason_v (validateTokenParams (request_with_symbol ''A'') e)
          = Some ''Token symbol must be 2-5 characters''"
    by (simp add: validateTokenParams_symbol [OF r] n4 Let_def)
  have e5: "\<not> isValid (validateTokenParams (request_with_symbol ''ABCDEF'') e)
      \<and> reason_v (validateTokenParams (request_with_symbol ''ABCDEF'') e)
          = Some ''Token symbol must be 2-5 characters''"
    by (simp add: validateTokenParams_symbol [OF r] n5 Let_def)
  from g m e1 e2 e3 e4 e5 show ?thesis by blast
qed

theorem symbol_normalization_and_length_witness:
  "tokenSymbol (validateTokenParams (request_with_symbol '' cmon! '') ''x'') = Some ''CMON''
   \<and> isValid (validateTokenParams (request_with_symbol '' cmon! '') ''x'')
   \<and> reason_v (validateTokenParams
                 (request_with_symbol '' cmon! '' \<lparr> tokenSymbol := None \<rparr>) ''x'')
       = Some ''Missing token symbol''"
proof -
  have n: "filter is_word_char (toUpperCase (trim '' cmon! '')) = ''CMON''" by code_simp
  have ne: "'' cmon! '' \<noteq> []" by simp
  have nt: "\<not> truthy (tokenSymbol (request_with_symbol '' cmon! '' \<lparr> tokenSymbol := None \<rparr>))"
    by (simp add: truthy_def)
  have a: "tokenSymbol (validateTokenParams (request_with_symbol '' cmon! '') ''x'')
             = Some (filter is_word_char (toUpperCase (trim '' cmon! '')))
      \<and> (isValid (validateTokenParams (request_with_symbol '' cmon! '') ''x'') \<longleftrightarrow>
            2 \<le> length (filter is_word_char (toUpperCase (trim '' cmon! '')))
            \<and> length (filter is_word_char (toUpperCase (trim '' cmon! ''))) \<le> 5)"
    using symbol_normalization_and_length
            [where tp = "request_with_symbol '' cmon! ''" and s = "'' cmon! ''" and e = "''x''"]
          request_with_symbol_passes [of "'' cmon! ''"] ne
    by blast
  have b: "reason_v (validateTokenParams
                 (request_with_symbol '' cmon! '' \<lparr> tokenSymbol := None \<rparr>) ''x'')
       = Some ''Missing token symbol''"
    using symbol_normalization_and_length
            [where tp = "request_with_symbol '' cmon! '' \<lparr> tokenSymbol := None \<rparr>"
               and e = "''x''"]
          request_with_symbol_passes [of "'' cmon! ''"] nt
    by simp
  from a b show ?thesis by (simp add: n)
qed

theorem symbol_validation_counterexample:
  "isValid (validateTokenParams (request_with_symbol ''ab$'') ''x'')
   \<and> tokenSymbol (validateTokenParams (request_with_symbol ''ab$'') ''x'') = Some ''AB''
   \<and> isValid (validateTokenParams (request_with_symbol ''a_b'') ''x'')
   \<and> tokenSymbol (validateTokenParams (request_with_symbol ''a_b'') ''x'') = Some ''A_B''
   \<and> \<not> isValid (validateTokenParams (request_with_symbol []) ''x'')
   \<and> reason_v (validateTokenParams (request_with_symbol []) ''x'')
       = Some ''Missing token symbol''"
proof -
  have n1: "filter is_word_char (toUpperCase (trim ''ab$'')) = ''AB''" by code_simp
  have n2: "filter is_word_char (toUpperCase (trim ''a_b'')) = ''A_B''" by code_simp
  have a: "isValid (validateTokenParams (request_with_symbol ''ab$'') ''x'')
   \<and> tokenSymbol (validateTokenParams (request_with_symbol ''ab$'') ''x'') = Some ''AB''"
    by (simp add: validateTokenParams_symbol [OF request_with_symbol_passes] n1 Let_def)
  have b: "isValid (validateTokenParams (request_with_symbol ''a_b'') ''x'')
   \<and> tokenSymbol (validateTokenParams (request_with_symbol ''a_b'') ''x'') = Some ''A_B''"
    by (simp add: validateTokenParams_symbol [OF request_with_symbol_passes] n2 Let_def)
  have c: "\<not> isValid (validateTokenParams (request_with_symbol []) ''x'')
   \<and> reason_v (validateTokenParams (request_with_symbol []) ''x'')
       = Some ''Missing token symbol''"
    by (simp add: validateTokenParams_def request_with_symbol_def truthy_def Let_def)
  from a b c show ?thesis by blast
qed

section \<open>Deployment orchestrator: properties\<close>

lemma extractTokenIdFromEvents_created: "extractTokenIdFromEvents created_tx = Some ''0xT''"
  by code_simp

lemma deployToken_env_liquidity_fails:
  "deployToken env_liquidity_fails =
     success_object \<lparr> tokenId := Some ''0xT'', transactionDigest := Some ''D1'' \<rparr>"
proof -
  have d: "digest created_tx = ''D1''" by (simp add: created_tx_def)
  show ?thesis
    by (simp add: deployToken_def env_liquidity_fails_def extractTokenIdFromEvents_created
          truthy_def d Let_def)
qed

lemma validate_env_liquidity_fails:
  "isValid (validateTokenParams (parsedRequest env_liquidity_fails)
              (defaultEmoji env_liquidity_fails))"
proof -
  have n: "filter is_word_char (toUpperCase (trim ''CMON'')) = ''CMON''" by code_simp
  have p: "parsedRequest env_liquidity_fails = request_with_symbol ''CMON''"
    by (simp add: env_liquidity_fails_def)
  show ?thesis
    by (simp add: p validateTokenParams_symbol [OF request_with_symbol_passes] n Let_def)
qed

lemma processTokenDeployment_unfold:
  "processTokenDeployment env =
     (if \<not> isTokenRequest (parsedRequest env) \<or> confidence (parsedRequest env) < 70 then
        failure_object \<lparr> reason := Some ''Not a valid token request or low confidence'' \<rparr>
      else if \<not> isValid (validateTokenParams (parsedRequest env) (defaultEmoji env)) then
        failure_object
          \<lparr> reason := reason_v (validateTokenParams (parsedRequest env) (defaultEmoji env)) \<rparr>
      else if \<not> success (deployToken env) then
        failure_object
          \<lparr> reason := Some (''Deployment failed: '' @ the (error (deployToken env))) \<rparr>
      else
        (case provideLiquidity env of
           Throws message \<Rightarrow>
             failure_object \<lparr> reason := Some (''Processing error: '' @ message) \<rparr>
         | Returns liquidityResult \<Rightarrow>
             (case lockLiquidity env of
                Throws message \<Rightarrow>
                  failure_object \<lparr> reason := Some (''Processing error: '' @ message) \<rparr>
              | Returns lockResult \<Rightarrow>
                  success_object
                    \<lparr> tokenId := tokenId (deployToken env),
                      transactionDigest := transactionDigest (deployToken env),
                      liquidityAdded := Some (success liquidityResult),
                      liquidityLocked := Some (success lockResult) \<rparr>)))"
  by (simp add: processTokenDeployment_def Let_def)

lemma success_failure_object [simp]: "\<not> success failure_object"
  by (simp add: failure_object_def)

lemma success_success_object [simp]: "success success_object"
  by (simp add: success_object_def failure_object_def)

text \<open>
  C1, as amended. \<open>processTokenDeployment\<close> reports \<open>success = true\<close> exactly when the
  request is accepted and valid, token creation succeeds (\<open>deployToken\<close> returns a
  successful result) and neither liquidity call throws. An unsuccessful result returned by
  liquidity provisioning or by liquidity locking does not fail the deployment: the result
  has \<open>success = true\<close> and carries the two outcomes in the flags \<open>liquidityAdded\<close> and
  \<open>liquidityLocked\<close>.
\<close>

theorem deployment_success_report:
  "(success (processTokenDeployment env) \<longleftrightarrow>
      isTokenRequest (parsedRequest env) \<and> \<not> confidence (parsedRequest env) < 70
      \<and> isValid (validateTokenParams (parsedRequest env) (defaultEmoji env))
      \<and> success (deployToken env)
      \<and> (\<exists>l. provideLiquidity env = Returns l)
      \<and> (\<exists>k. lockLiquidity env = Returns k))
   \<and> (success (processTokenDeployment env)
        \<and> provideLiquidity env = Returns l \<and> lockLiquidity env = Returns k \<longrightarrow>
       liquidityAdded (processTokenDeployment env) = Some (success l)
       \<and> liquidityLocked (processTokenDeployment env) = Some (success k)
       \<and> tokenId (processTokenDeployment env) = tokenId (deployToken env))"
proof -
  have a: "success (processTokenDeployment env) \<longleftrightarrow>
      isTokenRequest (parsedRequest env) \<and> \<not> confidence (parsedRequest env) < 70
      \<and> isValid (validateTokenParams (parsedRequest env) (defaultEmoji env))
      \<and> success (deployToken env)
      \<and> (\<exists>l. provideLiquidity env = Returns l)
      \<and> (\<exists>k. lockLiquidity env = Returns k)"
    by (auto simp: processTokenDeployment_unfold split: outcome.splits)
  have b: "success (processTokenDeployment env)
        \<and> provideLiquidity env = Returns l \<and> lockLiquidity env = Returns k \<longrightarrow>
       liquidityAdded (processTokenDeployment env) = Some (success l)
       \<and> liquidityLocked (processTokenDeployment env) = Some (success k)
       \<and> tokenId (processTokenDeployment env) = tokenId (deployToken env)"
    by (auto simp: processTokenDeployment_unfold split: if_splits)
  from a b show ?thesis by blast
qed

theorem deployment_success_report_witness:
  "success (processTokenDeployment env_liquidity_fails)
   \<and> liquidityAdded (processTokenDeployment env_liquidity_fails) = Some False
   \<and> liquidityLocked (processTokenDeployment env_liquidity_fails) = Some False
   \<and> tokenId (processTokenDeployment env_liquidity_fails) = Some ''0xT''"
proof -
  let ?l = "failure_object \<lparr> error := Some ''Failed to create pool'' \<rparr>"
  let ?k = "failure_object \<lparr> error := Some ''No LP tokens found'' \<rparr>"
  have r: "isTokenRequest (parsedRequest env_liquidity_fails)"
    "\<not> confidence (parsedRequest env_liquidity_fails) < 70"
    using request_with_symbol_passes [of "''CMON''"] by (simp_all add: env_liquidity_fails_def)
  have l: "provideLiquidity env_liquidity_fails = Returns ?l"
    and k: "lockLiquidity env_liquidity_fails = Returns ?k"
    by (simp_all add: env_liquidity_fails_def)
  have d: "success (deployToken env_liquidity_fails)"
    "tokenId (deployToken env_liquidity_fails) = Some ''0xT''"
    by (simp_all add: deployToken_env_liquidity_fails)
  from deployment_success_report [of env_liquidity_fails ?l ?k]
       r l k d validate_env_liquidity_fails
  show ?thesis by simp
qed

theorem deployment_failure_counterexample:
  "provideLiquidity env_liquidity_fails
     = Returns (failure_object \<lparr> error := Some ''Failed to create pool'' \<rparr>)
   \<and> \<not> success (failure_object \<lparr> error := Some ''Failed to create pool'' \<rparr>)
   \<and> lockLiquidity env_liquidity_fails
     = Returns (failure_object \<lparr> error := Some ''No LP tokens found'' \<rparr>)
   \<and> \<not> success (failure_object \<lparr> error := Some ''No LP tokens found'' \<rparr>)
   \<and> success (processTokenDeployment env_liquidity_fails)"
proof -
  have r: "isTokenRequest (parsedRequest env_liquidity_fails)"
    "\<not> confidence (parsedRequest env_liquidity_fails) < 70"
    using request_with_symbol_passes [of "''CMON''"] by (simp_all add: env_liquidity_fails_def)
  have l: "provideLiquidity env_liquidity_fails
      = Returns (failure_object \<lparr> error := Some ''Failed to create pool'' \<rparr>)"
    and k: "lockLiquidity env_liquidity_fails
      = Returns (failure_object \<lparr> error := Some ''No LP tokens found'' \<rparr>)"
    by (simp_all add: env_liquidity_fails_def)
  have d: "success (deployToken env_liquidity_fails)"
    by (simp add: deployToken_env_liquidity_fails)
  have s: "success (processTokenDeployment env_liquidity_fails)"
    using r l k d validate_env_liquidity_fails
    by (simp add: processTokenDeployment_unfold)
  from l k s show ?thesis by simp
qed

end
